theory Spec2Isabelle
  imports Main "HOL-Library.Word" "HOL-Library.Sublist" "HOL-Library.Log_Nat"
begin

section \<open>JavaScript strings\<close>

text \<open>
  A JavaScript string is a sequence of UTF-16 code units. String literals of the source that
  are plain ASCII are written with \<open>str\<close>; the Cyrillic ones are listed code unit by
  code unit.
\<close>

type_synonym jschar = "16 word"
type_synonym jsstring = "jschar list"

definition str :: "string \<Rightarrow> jsstring" where
  "str s = map of_char s"

text \<open>
  \<open>String.prototype.trim\<close> removes the code units of WhiteSpace and LineTerminator
  from both ends: TAB, LF, VT, FF, CR, SP, NBSP, U+1680, U+2000..U+200A, U+2028, U+2029,
  U+202F, U+205F, U+3000 and U+FEFF.
\<close>

definition is_whitespace :: "jschar \<Rightarrow> bool" where
  "is_whitespace c \<longleftrightarrow>
     c = 0x09 \<or> c = 0x0A \<or> c = 0x0B \<or> c = 0x0C \<or> c = 0x0D \<or> c = 0x20 \<or> c = 0xA0 \<or>
     c = 0x1680 \<or> (0x2000 \<le> c \<and> c \<le> 0x200A) \<or> c = 0x2028 \<or> c = 0x2029 \<or>
     c = 0x202F \<or> c = 0x205F \<or> c = 0x3000 \<or> c = 0xFEFF"

definition trim :: "jsstring \<Rightarrow> jsstring" where
  "trim s = rev (dropWhile is_whitespace (rev (dropWhile is_whitespace s)))"

section \<open>Regular expressions\<close>

text \<open>
  The two patterns of the text handler are anchored at both ends (\<open>^ ... $\<close>, no
  \<open>m\<close> flag) and use neither groups that are referred to nor assertions, so
  \<open>RegExp.prototype.test\<close> answers whether the whole string belongs to the regular
  language of the pattern. Patterns are kept as syntax trees and matched by derivatives.
\<close>

datatype rexp =
  Null
  | Eps
  | Atom "jschar \<Rightarrow> bool"
  | Seq rexp rexp
  | Alt rexp rexp
  | Star rexp

definition Plus :: "rexp \<Rightarrow> rexp" where
  "Plus r = Seq r (Star r)"

definition Opt :: "rexp \<Rightarrow> rexp" where
  "Opt r = Alt r Eps"

fun nullable :: "rexp \<Rightarrow> bool" where
  "nullable Null = False"
| "nullable Eps = True"
| "nullable (Atom p) = False"
| "nullable (Seq r s) = (nullable r \<and> nullable s)"
| "nullable (Alt r s) = (nullable r \<or> nullable s)"
| "nullable (Star r) = True"

fun deriv :: "jschar \<Rightarrow> rexp \<Rightarrow> rexp" where
  "deriv c Null = Null"
| "deriv c Eps = Null"
| "deriv c (Atom p) = (if p c then Eps else Null)"
| "deriv c (Seq r s) =
     (if nullable r then Alt (Seq (deriv c r) s) (deriv c s) else Seq (deriv c r) s)"
| "deriv c (Alt r s) = Alt (deriv c r) (deriv c s)"
| "deriv c (Star r) = Seq (deriv c r) (Star r)"

fun regex_test :: "rexp \<Rightarrow> jsstring \<Rightarrow> bool" where
  "regex_test r [] = nullable r"
| "regex_test r (c # cs) = regex_test (deriv c r) cs"

text \<open>The regular language of a pattern, for reasoning about \<open>regex_test\<close>.\<close>

inductive_set star :: "jsstring set \<Rightarrow> jsstring set" for A :: "jsstring set" where
  star_empty: "[] \<in> star A"
| star_more: "u \<in> A \<Longrightarrow> v \<in> star A \<Longrightarrow> u @ v \<in> star A"

definition conc :: "jsstring set \<Rightarrow> jsstring set \<Rightarrow> jsstring set" where
  "conc A B = {u @ v | u v. u \<in> A \<and> v \<in> B}"

fun lang :: "rexp \<Rightarrow> jsstring set" where
  "lang Null = {}"
| "lang Eps = {[]}"
| "lang (Atom p) = {[c] | c. p c}"
| "lang (Seq r s) = conc (lang r) (lang s)"
| "lang (Alt r s) = lang r \<union> lang s"
| "lang (Star r) = star (lang r)"

subsection \<open>Character classes\<close>

definition is_digit :: "jschar \<Rightarrow> bool" where
  \<comment> \<open>\<open>\d\<close>\<close>
  "is_digit c \<longleftrightarrow> 0x30 \<le> c \<and> c \<le> 0x39"

definition is_word :: "jschar \<Rightarrow> bool" where
  \<comment> \<open>\<open>\w\<close>: \<open>[A-Za-z0-9_]\<close>\<close>
  "is_word c \<longleftrightarrow>
     (0x41 \<le> c \<and> c \<le> 0x5A) \<or> (0x61 \<le> c \<and> c \<le> 0x7A) \<or> is_digit c \<or> c = 0x5F"

text \<open>
  The \<open>i\<close> flag compares canonicalised code units. Without the \<open>u\<close> flag a code
  unit of 128 or more never canonicalises to an ASCII one, and every pattern character
  here is ASCII, so only the ASCII letters need folding. Both character classes of the
  URL pattern are closed under ASCII case folding, so the flag changes nothing for them.
\<close>

definition canonicalize :: "jschar \<Rightarrow> jschar" where
  "canonicalize c = (if 0x61 \<le> c \<and> c \<le> 0x7A then c - 0x20 else c)"

definition ci :: "char \<Rightarrow> rexp" where
  \<comment> \<open>a pattern character under the \<open>i\<close> flag\<close>
  "ci p = Atom (\<lambda>c. canonicalize c = canonicalize (of_char p))"

definition is_host_char :: "jschar \<Rightarrow> bool" where
  \<comment> \<open>\<open>[\w.-]\<close>\<close>
  "is_host_char c \<longleftrightarrow> is_word c \<or> c = of_char CHR ''.'' \<or> c = of_char CHR ''-''"

definition is_path_char :: "jschar \<Rightarrow> bool" where
  \<comment> \<open>\<open>[\w\-._~:/?#[\]@!$&'()*+,;=.]\<close>\<close>
  "is_path_char c \<longleftrightarrow> is_word c \<or> c \<in> set (str ''-._~:/?#[]@!$&'()*+,;=.'')"

subsection \<open>The two patterns of the text handler\<close>

definition number_pattern :: rexp where
  \<comment> \<open>\<open>/^\d+$/\<close>\<close>
  "number_pattern = Plus (Atom is_digit)"

definition url_pattern :: rexp where
  \<comment> \<open>\<open>/^(https?:\/\/)[\w.-]+(?:\/[\w\-._~:/?#[\]@!$&'()*+,;=.]+)?$/i\<close>\<close>
  "url_pattern =
     Seq (Seq (ci CHR ''h'') (Seq (ci CHR ''t'') (Seq (ci CHR ''t'') (Seq (ci CHR ''p'')
            (Seq (Opt (ci CHR ''s'')) (Seq (ci CHR '':'') (Seq (ci CHR ''/'') (ci CHR ''/''))))))))
       (Seq (Plus (Atom is_host_char))
          (Opt (Seq (ci CHR ''/'') (Plus (Atom is_path_char)))))"

definition isNumber :: "jsstring \<Rightarrow> bool" where
  "isNumber text = regex_test number_pattern text"

definition isUrl :: "jsstring \<Rightarrow> bool" where
  "isUrl text = regex_test url_pattern text"


text \<open>
  The handler computes both tests and then branches (source lines 572 to 577): neither
  test accepts, or the number test accepts (\<open>stars\<close>), or only the URL test does
  (\<open>nft\<close>).
\<close>

datatype input_class = Stars | Nft | Neither

definition classify :: "jsstring \<Rightarrow> input_class" where
  "classify text =
     (if \<not> isNumber text \<and> \<not> isUrl text then Neither
      else if isNumber text then Stars else Nft)"

subsection \<open>Matching is membership in the language\<close>

lemma nullable_lang: "nullable r \<longleftrightarrow> [] \<in> lang r"
  by (induction r) (auto simp: conc_def intro: star_empty)

lemma conc_Cons_iff:
  "c # w \<in> conc A B \<longleftrightarrow>
     ([] \<in> A \<and> c # w \<in> B) \<or> (\<exists>u v. w = u @ v \<and> c # u \<in> A \<and> v \<in> B)"
proof
  assume "c # w \<in> conc A B"
  then obtain u v where uv: "c # w = u @ v" "u \<in> A" "v \<in> B"
    by (auto simp: conc_def)
  show "([] \<in> A \<and> c # w \<in> B) \<or> (\<exists>u v. w = u @ v \<and> c # u \<in> A \<and> v \<in> B)"
  proof (cases u)
    case Nil
    with uv show ?thesis by simp
  next
    case (Cons a u')
    with uv have "w = u' @ v" "c # u' \<in> A" by simp_all
    with uv show ?thesis by blast
  qed
next
  assume "([] \<in> A \<and> c # w \<in> B) \<or> (\<exists>u v. w = u @ v \<and> c # u \<in> A \<and> v \<in> B)"
  then show "c # w \<in> conc A B"
  proof
    assume "[] \<in> A \<and> c # w \<in> B"
    then have "[] @ (c # w) \<in> conc A B" unfolding conc_def by blast
    then show ?thesis by simp
  next
    assume "\<exists>u v. w = u @ v \<and> c # u \<in> A \<and> v \<in> B"
    then obtain u v where "w = u @ v" "c # u \<in> A" "v \<in> B" by blast
    then have "(c # u) @ v \<in> conc A B" unfolding conc_def by blast
    with \<open>w = u @ v\<close> show ?thesis by simp
  qed
qed

lemma star_Cons_split:
  assumes "x \<in> star A" "x = c # w"
  shows "\<exists>u v. w = u @ v \<and> c # u \<in> A \<and> v \<in> star A"
  using assms
proof (induction arbitrary: w rule: star.induct)
  case star_empty
  then show ?case by simp
next
  case (star_more u v)
  show ?case
  proof (cases u)
    case Nil
    with star_more show ?thesis by simp
  next
    case (Cons a u')
    with star_more.prems have "w = u' @ v" "a = c" by simp_all
    with star_more.hyps Cons show ?thesis by blast
  qed
qed

lemma star_Cons_iff:
  "c # w \<in> star A \<longleftrightarrow> (\<exists>u v. w = u @ v \<and> c # u \<in> A \<and> v \<in> star A)"
proof
  assume "c # w \<in> star A"
  then show "\<exists>u v. w = u @ v \<and> c # u \<in> A \<and> v \<in> star A"
    by (rule star_Cons_split) simp
next
  assume "\<exists>u v. w = u @ v \<and> c # u \<in> A \<and> v \<in> star A"
  then obtain u v where "w = u @ v" "c # u \<in> A" "v \<in> star A" by blast
  then have "(c # u) @ v \<in> star A" by (blast intro: star_more)
  with \<open>w = u @ v\<close> show "c # w \<in> star A" by simp
qed

lemma deriv_lang: "w \<in> lang (deriv c r) \<longleftrightarrow> c # w \<in> lang r"
proof (induction r arbitrary: w)
  case (Seq r s)
  then show ?case
    by (auto simp: conc_Cons_iff nullable_lang) (auto simp: conc_def)
next
  case (Star r)
  then show ?case
    by (auto simp: star_Cons_iff conc_def)
qed auto

lemma regex_test_lang: "regex_test r w \<longleftrightarrow> w \<in> lang r"
  by (induction w arbitrary: r) (simp_all add: nullable_lang deriv_lang)

lemma star_atoms: "w \<in> star {[c] | c. p c} \<longleftrightarrow> (\<forall>c \<in> set w. p c)"
proof (induction w)
  case Nil
  show ?case by (simp add: star_empty)
next
  case (Cons a w)
  show ?case by (auto simp: star_Cons_iff Cons)
qed

lemma lang_Plus_Atom: "w \<in> lang (Plus (Atom p)) \<longleftrightarrow> w \<noteq> [] \<and> (\<forall>c \<in> set w. p c)"
proof (cases w)
  case Nil
  then show ?thesis by (simp add: Plus_def conc_def)
next
  case (Cons a v)
  then show ?thesis by (simp add: Plus_def conc_Cons_iff star_atoms)
qed

lemma isNumber_iff: "isNumber text \<longleftrightarrow> text \<noteq> [] \<and> (\<forall>c \<in> set text. is_digit c)"
  by (simp add: isNumber_def number_pattern_def regex_test_lang lang_Plus_Atom)

lemma lang_Opt: "lang (Opt r) = insert [] (lang r)"
  by (auto simp: Opt_def)

lemma isUrl_head: "isUrl text \<Longrightarrow> \<exists>c cs. text = c # cs \<and> canonicalize c = 0x48"
  by (auto simp: isUrl_def url_pattern_def regex_test_lang conc_def ci_def canonicalize_def)

lemma digit_not_h: "is_digit c \<Longrightarrow> canonicalize c \<noteq> 0x48"
  by (auto simp: is_digit_def canonicalize_def)

lemma not_number_and_url: "\<not> (isNumber text \<and> isUrl text)"
proof
  assume a: "isNumber text \<and> isUrl text"
  then obtain c cs where t: "text = c # cs" "canonicalize c = 0x48"
    using isUrl_head by blast
  from a t have "is_digit c" by (simp add: isNumber_iff)
  with t show False using digit_not_h by blast
qed


text \<open>
  C2. The classifier is total and deterministic: no text (trimmed or not) is accepted by
  both the number test and the URL test, so every text falls in exactly one of the three
  classes, \<open>Stars\<close> exactly when the number test accepts, \<open>Nft\<close> exactly when
  the URL test accepts, \<open>Neither\<close> exactly when both reject.
\<close>

theorem classifier_exclusive:
  "\<not> (isNumber text \<and> isUrl text) \<and>
   (classify text = Stars) = isNumber text \<and>
   (classify text = Nft) = isUrl text \<and>
   (classify text = Neither) = (\<not> isNumber text \<and> \<not> isUrl text)"
  using not_number_and_url by (auto simp: classify_def)


section \<open>Numbers\<close>

text \<open>
  A JavaScript Number is an IEEE 754 double. The handler only produces Numbers by
  \<open>parseInt(text, 10)\<close> on a text of decimal digits, and the token generator only by
  \<open>Math.random() * alphabet.length\<close>; both are non-negative, so the sign is left out.
  A double has 53 significant bits: \<open>round_to_53\<close> rounds a natural number to the
  nearest one with at most 53 significant bits, ties to the even significand.
  \<open>floorlog 2 n\<close> is the number of binary digits of \<open>n\<close>.
\<close>

definition round_to_53 :: "nat \<Rightarrow> nat" where
  "round_to_53 n =
     (if n < 2 ^ 53 then n
      else let e = floorlog 2 n - 53; q = n div 2 ^ e; r = n mod 2 ^ e; half = 2 ^ (e - 1);
               q' = (if half < r \<or> (r = half \<and> odd q) then q + 1 else q)
           in q' * 2 ^ e)"

text \<open>
  The Number nearest to a natural number: finite below \<open>2 ^ 1024\<close>, else
  \<open>Infinity\<close>. A finite Number that is an integer is kept as that integer.
\<close>

datatype number = Finite nat | Infinity

definition to_number :: "nat \<Rightarrow> number" where
  "to_number n = (let v = round_to_53 n in if v < 2 ^ 1024 then Finite v else Infinity)"

subsection \<open>\<open>parseInt(text, 10)\<close> on a text of digits\<close>

text \<open>
  The handler calls \<open>parseInt\<close> only on a text that the number pattern accepted. The
  result is the Number for the mathematical integer of the digits. (The language lets an
  implementation replace the digits after the twentieth by zeros; nothing below depends
  on more than 16 digits.)
\<close>

definition digit_value :: "jschar \<Rightarrow> nat" where
  "digit_value c = unat c - 0x30"

definition mathInt :: "jsstring \<Rightarrow> nat" where
  \<comment> \<open>the mathematical integer that the digits denote\<close>
  "mathInt ds = foldl (\<lambda>a c. 10 * a + digit_value c) 0 ds"

definition parseInt10 :: "jsstring \<Rightarrow> number" where
  "parseInt10 s = to_number (mathInt s)"

subsection \<open>\<open>String(value)\<close> on a Number\<close>

text \<open>
  \<open>Number::toString\<close> prints the decimal with the fewest significant digits that
  still rounds to the Number (the closest one when several do, the even one on a tie),
  as a plain integer below \<open>10 ^ 21\<close> and in exponent form from there on.
  \<open>candidate v j\<close> looks among the multiples of \<open>10 ^ j\<close> for one that rounds to
  \<open>v\<close>; \<open>shortest\<close> tries the largest \<open>j\<close> first.
\<close>

fun decimal :: "nat \<Rightarrow> jsstring" where
  "decimal n =
     (if n < 10 then [of_nat (0x30 + n)] else decimal (n div 10) @ [of_nat (0x30 + n mod 10)])"

declare decimal.simps [simp del]

definition candidate :: "nat \<Rightarrow> nat \<Rightarrow> nat option" where
  "candidate v j =
     (let lo = v div 10 ^ j * 10 ^ j; hi = lo + 10 ^ j;
          ok_lo = (to_number lo = Finite v); ok_hi = (to_number hi = Finite v)
      in if ok_lo \<and> ok_hi then
           Some (if v - lo < hi - v then lo else if hi - v < v - lo then hi
                 else if even (v div 10 ^ j) then lo else hi)
         else if ok_lo then Some lo
         else if ok_hi then Some hi
         else None)"

fun shortest_from :: "nat \<Rightarrow> nat \<Rightarrow> nat" where
  "shortest_from v 0 = v"
| "shortest_from v (Suc j) =
     (case candidate v (Suc j) of Some c \<Rightarrow> c | None \<Rightarrow> shortest_from v j)"

definition shortest :: "nat \<Rightarrow> nat" where
  "shortest v = shortest_from v (floorlog 10 v - 1)"

fun strip_zeros :: "nat \<Rightarrow> nat" where
  "strip_zeros n = (if n \<noteq> 0 \<and> n mod 10 = 0 then strip_zeros (n div 10) else n)"

declare strip_zeros.simps [simp del]

definition exponential :: "nat \<Rightarrow> jsstring" where
  "exponential c =
     (let ds = decimal (strip_zeros c); e = decimal (floorlog 10 c - 1)
      in if length ds = 1 then ds @ str ''e+'' @ e
         else hd ds # str ''.'' @ tl ds @ str ''e+'' @ e)"

definition number_to_string :: "number \<Rightarrow> jsstring" where
  "number_to_string x =
     (case x of
        Infinity \<Rightarrow> str ''Infinity''
      | Finite v \<Rightarrow> (let c = shortest v in if c < 10 ^ 21 then decimal c else exponential c))"

text \<open>
  In the handler \<open>value\<close> is a Number on the \<open>stars\<close> branch and the text itself on
  the \<open>nft\<close> branch; \<open>saveRequest\<close> stores \<open>String(value)\<close>.
\<close>

datatype js_value = NumberValue number | StringValue jsstring

fun String_of :: "js_value \<Rightarrow> jsstring" where
  "String_of (NumberValue x) = number_to_string x"
| "String_of (StringValue s) = s"

fun le_zero :: "number \<Rightarrow> bool" where
  \<comment> \<open>\<open>value <= 0\<close>\<close>
  "le_zero (Finite v) = (v = 0)"
| "le_zero Infinity = False"

section \<open>Token generator\<close>

text \<open>
  \<open>Math.random()\<close> returns a double that is at least 0 and less than 1. Every such
  double is a multiple of \<open>2 ^ -1074\<close>; it is represented by that multiple. The random
  source is the sequence of the results of the successive calls.
\<close>

type_synonym random_source = "nat \<Rightarrow> nat"

definition is_random :: "nat \<Rightarrow> bool" where
  "is_random m \<longleftrightarrow> m < 2 ^ 1074 \<and> round_to_53 m = m"

definition alphabet :: jsstring where
  "alphabet = str ''ABCDEFGHIJKLMNOPQRSTUVWXYZabcdefghijklmnopqrstuvwxyz0123456789''"

definition charAt :: "jsstring \<Rightarrow> nat \<Rightarrow> jsstring" where
  \<comment> \<open>the empty string when the index is out of range\<close>
  "charAt s i = (if i < length s then [s ! i] else [])"

definition random_index :: "nat \<Rightarrow> nat \<Rightarrow> nat" where
  \<comment> \<open>\<open>Math.floor(Math.random() * alphabet.length)\<close>: the product is rounded to a
      double, in units of \<open>2 ^ -1074\<close>, and then floored\<close>
  "random_index m len = round_to_53 (m * len) div 2 ^ 1074"

function token_loop :: "random_source \<Rightarrow> nat \<Rightarrow> nat \<Rightarrow> jsstring \<Rightarrow> jsstring" where
  "token_loop rnd len i out =
     (if i < len
      then token_loop rnd len (i + 1)
             (out @ charAt alphabet (random_index (rnd i) (length alphabet)))
      else out)"
  by pat_completeness auto
termination
  by (relation "measure (\<lambda>(rnd, len, i, out). len - i)") auto

declare token_loop.simps [simp del]

definition generateRandomToken :: "random_source \<Rightarrow> nat \<Rightarrow> jsstring" where
  "generateRandomToken rnd len = token_loop rnd len 0 []"

subsection \<open>The token has 14 characters of the alphabet\<close>

lemma floorlog_eqI:
  assumes "1 < b" "b ^ (k - 1) \<le> x" "x < b ^ k"
  shows "floorlog b x = k"
proof (rule antisym)
  show "floorlog b x \<le> k" using assms by (intro floorlog_leI) simp_all
  show "k \<le> floorlog b x" using assms by (intro floorlog_geI) simp_all
qed

lemma floorlog_ge_54: "2 ^ 53 \<le> n \<Longrightarrow> 54 \<le> floorlog 2 n"
  by (rule floorlog_geI) simp_all

lemma round_to_53_upper:
  assumes "2 ^ 53 \<le> n"
  shows "round_to_53 n \<le> n + 2 ^ (floorlog 2 n - 54)"
proof -
  define e where "e = floorlog 2 n - 53"
  define q where "q = n div 2 ^ e"
  define r where "r = n mod 2 ^ e"
  have e1: "1 \<le> e" using floorlog_ge_54 [OF assms] by (simp add: e_def)
  have half: "(2::nat) ^ (floorlog 2 n - 54) = 2 ^ (e - 1)" by (simp add: e_def)
  have two: "(2::nat) ^ e = 2 * 2 ^ (e - 1)"
    using e1 by (metis One_nat_def Suc_pred less_eq_Suc_le power_Suc)
  have n: "n = q * 2 ^ e + r" unfolding q_def r_def by (rule div_mult_mod_eq [symmetric])
  have rt: "round_to_53 n =
      (if 2 ^ (e - 1) < r \<or> (r = 2 ^ (e - 1) \<and> odd q) then q + 1 else q) * 2 ^ e"
    using assms by (simp add: round_to_53_def Let_def e_def q_def r_def)
  show ?thesis
  proof (cases "2 ^ (e - 1) < r \<or> (r = 2 ^ (e - 1) \<and> odd q)")
    case True
    then have "2 ^ (e - 1) \<le> r" by auto
    moreover have "round_to_53 n = q * 2 ^ e + 2 ^ e" using True rt by (simp add: algebra_simps)
    ultimately show ?thesis using n two half by linarith
  next
    case False
    then have "round_to_53 n = q * 2 ^ e" using rt by simp
    then show ?thesis using n by linarith
  qed
qed

lemma is_random_le:
  assumes "is_random m"
  shows "m \<le> (2 ^ 53 - 1) * 2 ^ 1021"
proof (cases "m < 2 ^ 1073")
  case True
  have "(2::nat) ^ 1073 = 2 ^ 52 * 2 ^ 1021" by (simp flip: power_add)
  then show ?thesis using True by simp
next
  case False
  then have lo: "2 ^ 1073 \<le> m" by simp
  from assms have hi: "m < 2 ^ 1074" and fx: "round_to_53 m = m"
    by (simp_all add: is_random_def)
  have fl: "floorlog 2 m = 1074" using lo hi by (intro floorlog_eqI) simp_all
  have "(2::nat) ^ 53 \<le> 2 ^ 1073" by (rule power_increasing) simp_all
  then have big: "\<not> m < 2 ^ 53" using lo by linarith
  have "2 ^ 1021 dvd round_to_53 m"
    using big by (simp add: round_to_53_def Let_def fl)
  then obtain k where k: "m = 2 ^ 1021 * k" using fx by (auto simp: dvd_def)
  have "(2::nat) ^ 1074 = 2 ^ 1021 * 2 ^ 53" by (simp flip: power_add)
  with hi k have "k < 2 ^ 53" by simp
  then have "k \<le> 2 ^ 53 - 1" by simp
  then have "2 ^ 1021 * k \<le> 2 ^ 1021 * (2 ^ 53 - 1)" by (rule mult_le_mono2)
  with k show ?thesis by (simp add: mult.commute)
qed

lemma random_index_62:
  assumes "is_random m"
  shows "random_index m 62 < 62"
proof -
  define P :: nat where "P = 2 ^ 1021"
  have p74: "(2::nat) ^ 1074 = 2 ^ 53 * P" by (simp add: P_def flip: power_add)
  have p26: "(2::nat) ^ 1026 = 32 * P" by (simp add: P_def flip: power_add)
  have p80: "(2::nat) ^ 1080 = 64 * 2 ^ 1074" by (simp flip: power_add)
  have Ppos: "0 < P" by (simp add: P_def)
  have m: "m \<le> (2 ^ 53 - 1) * P" using is_random_le [OF assms] by (simp add: P_def)
  have "(2 ^ 53 - 1) * P = 2 ^ 53 * P - P" by (simp add: algebra_simps)
  with m have m': "m + P \<le> 2 ^ 53 * P" using Ppos by simp
  have bound: "round_to_53 (m * 62) < 62 * 2 ^ 1074"
  proof (cases "m * 62 < 2 ^ 53")
    case True
    then have "round_to_53 (m * 62) = m * 62" by (simp add: round_to_53_def)
    moreover have "m * 62 < 62 * 2 ^ 1074" using m' Ppos p74 by simp
    ultimately show ?thesis by simp
  next
    case False
    then have big: "2 ^ 53 \<le> m * 62" by simp
    have "m * 62 < 2 ^ 1080" using m' Ppos p74 p80 by simp
    then have "floorlog 2 (m * 62) \<le> 1080" by (intro floorlog_leI) simp_all
    then have "floorlog 2 (m * 62) - 54 \<le> 1026" by simp
    then have "(2::nat) ^ (floorlog 2 (m * 62) - 54) \<le> 2 ^ 1026"
      by (intro power_increasing) simp_all
    with round_to_53_upper [OF big] have "round_to_53 (m * 62) \<le> m * 62 + 32 * P"
      using p26 by linarith
    also have "\<dots> < 62 * (2 ^ 53 * P)" using m' Ppos by simp
    finally show ?thesis using p74 by simp
  qed
  show ?thesis
    unfolding random_index_def using bound by (simp add: less_mult_imp_div_less)
qed

lemma length_alphabet: "length alphabet = 62"
  by (simp add: alphabet_def str_def)

lemma charAt_alphabet:
  assumes "is_random m"
  shows "\<exists>c \<in> set alphabet. charAt alphabet (random_index m (length alphabet)) = [c]"
proof -
  have "random_index m (length alphabet) < length alphabet"
    using random_index_62 [OF assms] by (simp add: length_alphabet)
  then show ?thesis by (auto simp: charAt_def)
qed

lemma token_loop_shape:
  assumes "\<forall>k < len. is_random (rnd k)"
  shows "length (token_loop rnd len i out) = length out + (len - i) \<and>
         set (token_loop rnd len i out) \<subseteq> set out \<union> set alphabet"
  using assms
proof (induction rnd len i out rule: token_loop.induct)
  case (1 rnd len i out)
  show ?case
  proof (cases "i < len")
    case True
    with "1.prems" have "is_random (rnd i)" by simp
    from charAt_alphabet [OF this] obtain c where
      c: "c \<in> set alphabet" "charAt alphabet (random_index (rnd i) (length alphabet)) = [c]"
      by blast
    from "1.IH" [OF True "1.prems"] c True show ?thesis
      by (subst token_loop.simps, subst (2) token_loop.simps) auto
  next
    case False
    then show ?thesis by (subst token_loop.simps, subst (2) token_loop.simps) simp
  qed
qed

lemma distinct_alphabet: "distinct alphabet"
  by (simp add: alphabet_def str_def)

text \<open>
  C4. Whatever doubles in \<open>[0, 1)\<close> the random source returns, the token generator
  called with length 14, as the flow calls it, returns a string of exactly 14 code units,
  each of them a character of the alphabet; the alphabet has 62 different characters
  (upper case letters, lower case letters, digits). The rounded product
  \<open>Math.random() * 62\<close> stays below 62, so \<open>charAt\<close> is never out of range.
\<close>

theorem token_shape:
  assumes "\<forall>k < 14. is_random (rnd k)"
  shows "length (generateRandomToken rnd 14) = 14 \<and>
         set (generateRandomToken rnd 14) \<subseteq> set alphabet \<and>
         length alphabet = 62 \<and> distinct alphabet"
  using token_loop_shape [OF assms, of 0 "[]"]
  by (simp add: generateRandomToken_def length_alphabet distinct_alphabet)

lemma is_random_half: "is_random (2 ^ 1073)"
proof -
  have "floorlog 2 (2 ^ 1073) = 1074" by (rule floorlog_eqI) simp_all
  then show ?thesis by (simp add: is_random_def round_to_53_def Let_def flip: power_add)
qed

theorem token_shape_witness:
  "is_random (2 ^ 1073) \<and>
   length (generateRandomToken (\<lambda>i. 2 ^ 1073) 14) = 14 \<and>
   set (generateRandomToken (\<lambda>i. 2 ^ 1073) 14) \<subseteq> set alphabet"
  using token_shape [of "\<lambda>i. 2 ^ 1073"] is_random_half by simp

section \<open>Sponsor links\<close>

text \<open>
  \<open>raw.indexOf(pat, pos)\<close>: the first index at or after \<open>pos\<close> (clamped to the
  length) where \<open>pat\<close> occurs; \<open>None\<close> stands for \<open>-1\<close>.
\<close>

fun find_from :: "jsstring \<Rightarrow> jsstring \<Rightarrow> nat \<Rightarrow> nat option" where
  "find_from pat [] k = (if pat = [] then Some k else None)"
| "find_from pat (c # cs) k =
     (if prefix pat (c # cs) then Some k else find_from pat cs (k + 1))"

definition indexOf :: "jsstring \<Rightarrow> jsstring \<Rightarrow> nat \<Rightarrow> nat option" where
  "indexOf s pat pos = (let start = min pos (length s) in find_from pat (drop start s) start)"

definition slice :: "jsstring \<Rightarrow> nat \<Rightarrow> nat \<Rightarrow> jsstring" where
  \<comment> \<open>\<open>s.slice(from, to)\<close> for indices that are not negative\<close>
  "slice s from to = take (to - from) (drop from s)"

fun split_from :: "jsstring \<Rightarrow> jsstring \<Rightarrow> jsstring list" where
  "split_from cur [] = [cur]"
| "split_from cur (c # cs) =
     (if c = of_char CHR '','' then cur # split_from [] cs else split_from (cur @ [c]) cs)"

definition split_comma :: "jsstring \<Rightarrow> jsstring list" where
  \<comment> \<open>\<open>raw.split(',')\<close>\<close>
  "split_comma s = split_from [] s"

definition array_from_set :: "jsstring list \<Rightarrow> jsstring list" where
  \<comment> \<open>\<open>Array.from(new Set(matches))\<close>: a Set keeps the order of first insertion\<close>
  "array_from_set xs = foldl (\<lambda>acc x. if x \<in> set acc then acc else acc @ [x]) [] xs"

definition sponsor_prefix :: jsstring where
  "sponsor_prefix = str ''https://t.me/''"

definition item_end :: "jsstring \<Rightarrow> nat \<Rightarrow> nat" where
  \<comment> \<open>the \<open>end\<close> of the loop body: the next comma or the next prefix, whichever comes
      first, else the length\<close>
  "item_end raw idx =
     (let end = indexOf raw (str '','') idx;
          nextPrefix = indexOf raw sponsor_prefix (idx + length sponsor_prefix);
          end = (case nextPrefix of
                   None \<Rightarrow> end
                 | Some np \<Rightarrow> (case end of None \<Rightarrow> Some np
                              | Some e \<Rightarrow> if np < e then Some np else Some e))
      in case end of None \<Rightarrow> length raw | Some e \<Rightarrow> e)"

lemma find_from_Some:
  "find_from pat xs k = Some r \<Longrightarrow> k \<le> r \<and> prefix pat (drop (r - k) xs) \<and> (pat \<noteq> [] \<longrightarrow> r - k < length xs)"
proof (induction xs arbitrary: k)
  case Nil
  then show ?case by (simp split: if_splits)
next
  case (Cons c cs)
  show ?case
  proof (cases "prefix pat (c # cs)")
    case True
    with Cons.prems show ?thesis by simp
  next
    case False
    with Cons.prems have "find_from pat cs (k + 1) = Some r" by simp
    from Cons.IH [OF this] have "k + 1 \<le> r" "prefix pat (drop (r - (k + 1)) cs)"
      "pat \<noteq> [] \<longrightarrow> r - (k + 1) < length cs" by simp_all
    moreover from \<open>k + 1 \<le> r\<close> have "r - k = Suc (r - (k + 1))" by simp
    ultimately show ?thesis by simp
  qed
qed

lemma indexOf_Some:
  assumes "indexOf s pat pos = Some r" "pat \<noteq> []"
  shows "min pos (length s) \<le> r \<and> r < length s \<and> prefix pat (drop r s)"
proof -
  define start where "start = min pos (length s)"
  from assms have f: "find_from pat (drop start s) start = Some r"
    by (simp add: indexOf_def start_def Let_def)
  from find_from_Some [OF f] assms(2)
  have a: "start \<le> r" and b: "prefix pat (drop (r - start) (drop start s))"
    and c: "r - start < length (drop start s)" by blast+
  from a b have "prefix pat (drop r s)" by simp
  moreover from a c have "r < length s" by simp
  ultimately show ?thesis using a by (simp add: start_def)
qed

lemma sponsor_prefix_head: "prefix sponsor_prefix xs \<Longrightarrow> xs \<noteq> [] \<and> hd xs = 0x68"
  by (auto simp: sponsor_prefix_def str_def prefix_def)

lemma comma_head: "prefix (str '','') xs \<Longrightarrow> xs \<noteq> [] \<and> hd xs = 0x2C"
  by (auto simp: str_def prefix_def)

lemma item_end_ge:
  assumes "idx < length raw"
  shows "idx \<le> item_end raw idx"
    and "item_end raw idx = idx \<Longrightarrow> raw ! idx = 0x2C"
proof -
  have comma: "\<And>e. indexOf raw (str '','') idx = Some e \<Longrightarrow> idx \<le> e \<and> (e = idx \<longrightarrow> raw ! idx = 0x2C)"
  proof -
    fix e assume e: "indexOf raw (str '','') idx = Some e"
    have "str '','' \<noteq> []" by (simp add: str_def)
    from indexOf_Some [OF e this] assms have "idx \<le> e" "e < length raw" "prefix (str '','') (drop e raw)"
      by simp_all
    with comma_head [of "drop e raw"] show "idx \<le> e \<and> (e = idx \<longrightarrow> raw ! idx = 0x2C)"
      by (auto simp: hd_drop_conv_nth)
  qed
  have pre: "\<And>np. indexOf raw sponsor_prefix (idx + length sponsor_prefix) = Some np \<Longrightarrow> idx < np"
  proof -
    fix np assume np: "indexOf raw sponsor_prefix (idx + length sponsor_prefix) = Some np"
    have ne: "sponsor_prefix \<noteq> []" by (simp add: sponsor_prefix_def str_def)
    have "length sponsor_prefix = 13" by (simp add: sponsor_prefix_def str_def)
    with indexOf_Some [OF np ne] assms show "idx < np" by (simp add: min_def split: if_splits)
  qed
  show "idx \<le> item_end raw idx"
    using comma pre assms by (auto simp: item_end_def Let_def split: option.splits dest: less_imp_le)
  show "item_end raw idx = idx \<Longrightarrow> raw ! idx = 0x2C"
    using comma pre assms by (auto simp: item_end_def Let_def split: option.splits if_splits)
qed

lemma item_end_beyond: "length raw \<le> idx \<Longrightarrow> item_end raw idx = length raw"
  by (simp add: item_end_def indexOf_def sponsor_prefix_def str_def)

lemma next_prefix_after:
  assumes "indexOf raw sponsor_prefix (item_end raw idx) = Some k"
  shows "idx < k \<and> k < length raw"
proof -
  have ne: "sponsor_prefix \<noteq> []" by (simp add: sponsor_prefix_def str_def)
  from indexOf_Some [OF assms ne]
  have a: "min (item_end raw idx) (length raw) \<le> k" and b: "k < length raw"
    and c: "prefix sponsor_prefix (drop k raw)" by simp_all
  have h: "raw ! k = 0x68" using sponsor_prefix_head [OF c] b by (simp add: hd_drop_conv_nth)
  show ?thesis
  proof (cases "idx < length raw")
    case True
    from item_end_ge(1) [OF True] a b True have "idx \<le> k" by (simp add: min_def split: if_splits)
    moreover have "k \<noteq> idx"
    proof
      assume "k = idx"
      with a b item_end_ge(1) [OF True] have "item_end raw idx = idx" by (simp add: min_def split: if_splits)
      from item_end_ge(2) [OF True this] h \<open>k = idx\<close> show False by simp
    qed
    ultimately show ?thesis using b by simp
  next
    case False
    then have "item_end raw idx = length raw" by (simp add: item_end_beyond)
    with a b show ?thesis by simp
  qed
qed

function sponsor_loop :: "jsstring \<Rightarrow> nat option \<Rightarrow> jsstring list \<Rightarrow> jsstring list" where
  "sponsor_loop raw None matches = matches"
| "sponsor_loop raw (Some idx) matches =
     (let end = item_end raw idx;
          item = trim (slice raw idx end)
      in sponsor_loop raw (indexOf raw sponsor_prefix end)
           (if item \<noteq> [] then matches @ [item] else matches))"
  by pat_completeness auto
termination
proof (relation "measure (\<lambda>(raw, idx, matches). case idx of None \<Rightarrow> 0 | Some k \<Rightarrow> Suc (length raw - k))")
  show "wf (measure (\<lambda>(raw, idx, matches). case idx of None \<Rightarrow> 0 | Some k \<Rightarrow> Suc (length raw - k)))"
    by simp
next
  fix raw :: jsstring and idx :: nat and matches :: "jsstring list" and x xa
  assume "x = item_end raw idx" "xa = trim (slice raw idx x)"
  then show "((raw, indexOf raw sponsor_prefix x, if xa \<noteq> [] then matches @ [xa] else matches),
              (raw, Some idx, matches))
             \<in> measure (\<lambda>(raw, idx, matches). case idx of None \<Rightarrow> 0 | Some k \<Rightarrow> Suc (length raw - k))"
    using next_prefix_after [of raw idx] by (auto split: option.splits)
qed

definition normalizeSponsorLinks :: "jsstring \<Rightarrow> jsstring list" where
  "normalizeSponsorLinks raw =
     (if raw = [] then []
      else let matches = sponsor_loop raw (indexOf raw sponsor_prefix 0) []
           in if length matches = 0
              then filter (\<lambda>s. s \<noteq> []) (map trim (split_comma raw))
              else array_from_set matches)"


lemma distinct_array_from_set_aux:
  "distinct acc \<Longrightarrow>
   distinct (foldl (\<lambda>acc x. if x \<in> set acc then acc else acc @ [x]) acc xs)"
  by (induction xs arbitrary: acc) simp_all

lemma distinct_array_from_set: "distinct (array_from_set xs)"
  by (simp add: array_from_set_def distinct_array_from_set_aux)

text \<open>
  C9. The parser does not always return a deduplicated list. Only the path that found
  \<open>https://t.me/\<close> links ends in \<open>Array.from(new Set(matches))\<close>; the fallback
  \<open>raw.split(',')\<close> returns before that line. On the configuration string
  \<open>t.me/a,t.me/a\<close> no prefix is found and the result lists the link twice.
\<close>

theorem sponsor_fallback_keeps_duplicates:
  "normalizeSponsorLinks (str ''t.me/a,t.me/a'') = [str ''t.me/a'', str ''t.me/a''] \<and>
   \<not> distinct (normalizeSponsorLinks (str ''t.me/a,t.me/a''))"
proof -
  have none: "indexOf (str ''t.me/a,t.me/a'') sponsor_prefix 0 = None"
    by (simp add: indexOf_def sponsor_prefix_def str_def)
  have split: "split_comma (str ''t.me/a,t.me/a'') = [str ''t.me/a'', str ''t.me/a'']"
    by (simp add: split_comma_def str_def)
  have trimmed: "trim (str ''t.me/a'') = str ''t.me/a''"
    by (simp add: trim_def str_def is_whitespace_def)
  have ne: "str ''t.me/a,t.me/a'' \<noteq> []" "str ''t.me/a'' \<noteq> []"
    by (simp_all add: str_def)
  have "normalizeSponsorLinks (str ''t.me/a,t.me/a'') = [str ''t.me/a'', str ''t.me/a'']"
    by (simp add: normalizeSponsorLinks_def none split trimmed ne)
  then show ?thesis by simp
qed

section \<open>Persistence\<close>

text \<open>
  The three tables of \<open>initDb\<close>. \<open>users\<close> is keyed by \<open>telegram_id\<close>,
  \<open>requests\<close> by \<open>id\<close> (the token), \<open>user_states\<close> by \<open>user_id\<close>. The
  timestamps are never read and are left out. Both \<open>requests.user_id\<close> and
  \<open>user_states.user_id\<close> reference \<open>users\<close>, so an insert for a user that is not
  in \<open>users\<close> is refused. A query on a server that cannot be reached is rejected;
  \<open>reachable\<close> says whether the server answers.
\<close>

record user_row =
  username :: "jsstring option"
  first_name :: "jsstring option"
  last_name :: "jsstring option"

record request_row =
  user_id :: int
  request_type :: "jsstring option"
  request_value :: jsstring
  generated_link :: jsstring

record database =
  users :: "int \<rightharpoonup> user_row"
  requests :: "jsstring \<rightharpoonup> request_row"
  user_states :: "int \<rightharpoonup> jsstring"
  reachable :: bool

datatype db_error = ConnectionError | ForeignKeyViolation

text \<open>
  \<open>pool\<close> is \<open>null\<close> when no \<open>DATABASE_URL\<close> is configured: \<open>None\<close> here.
  Every operation returns the error that the rejected query throws, or its result
  together with the pool after it. The writes take their text parameters from the two
  patterns, the token alphabet and the environment, none of which can hold the code unit
  0 that PostgreSQL refuses in a text.
\<close>

type_synonym pool = "database option"

record telegram_user =
  id :: int
  tg_username :: "jsstring option"
  tg_first_name :: "jsstring option"
  tg_last_name :: "jsstring option"

definition or_null :: "jsstring option \<Rightarrow> jsstring option" where
  \<comment> \<open>\<open>x || null\<close>: the empty string is falsy\<close>
  "or_null x = (case x of None \<Rightarrow> None | Some s \<Rightarrow> if s = [] then None else Some s)"

definition upsertUser :: "pool \<Rightarrow> telegram_user option \<Rightarrow> db_error + pool" where
  "upsertUser pool user =
     (case (pool, user) of
        (Some db, Some u) \<Rightarrow>
          if \<not> reachable db then Inl ConnectionError
          else Inr (Some (db\<lparr>users := (users db)(id u \<mapsto>
                 \<lparr>username = or_null (tg_username u), first_name = or_null (tg_first_name u),
                  last_name = or_null (tg_last_name u)\<rparr>)\<rparr>))
      | _ \<Rightarrow> Inr pool)"

definition setUserState :: "pool \<Rightarrow> int \<Rightarrow> jsstring \<Rightarrow> db_error + pool" where
  "setUserState pool userId state =
     (case pool of
        None \<Rightarrow> Inr pool
      | Some db \<Rightarrow>
          if \<not> reachable db then Inl ConnectionError
          else if userId \<notin> dom (users db) then Inl ForeignKeyViolation
          else Inr (Some (db\<lparr>user_states := (user_states db)(userId \<mapsto> state)\<rparr>)))"

definition getUserState :: "pool \<Rightarrow> int \<Rightarrow> db_error + jsstring option" where
  \<comment> \<open>\<open>rows[0]?.state || null\<close>\<close>
  "getUserState pool userId =
     (case pool of
        None \<Rightarrow> Inr None
      | Some db \<Rightarrow>
          if \<not> reachable db then Inl ConnectionError
          else Inr (or_null (user_states db userId)))"

definition clearUserState :: "pool \<Rightarrow> int \<Rightarrow> db_error + pool" where
  "clearUserState pool userId =
     (case pool of
        None \<Rightarrow> Inr pool
      | Some db \<Rightarrow>
          if \<not> reachable db then Inl ConnectionError
          else Inr (Some (db\<lparr>user_states := (user_states db)(userId := None)\<rparr>)))"

definition saveRequest ::
  "pool \<Rightarrow> jsstring \<Rightarrow> int \<Rightarrow> jsstring \<Rightarrow> js_value \<Rightarrow> jsstring \<Rightarrow> db_error + pool" where
  "saveRequest pool token userId type val link =
     (case pool of
        None \<Rightarrow> Inr pool
      | Some db \<Rightarrow>
          if \<not> reachable db then Inl ConnectionError
          else if userId \<notin> dom (users db) then Inl ForeignKeyViolation
          else Inr (Some (db\<lparr>requests := (requests db)(token \<mapsto>
                 \<lparr>user_id = userId, request_type = Some type,
                  request_value = String_of val, generated_link = link\<rparr>)\<rparr>)))"


section \<open>The copy page\<close>

text \<open>
  The Cyrillic literals of the source, as UTF-16 code units (with a transliteration).
\<close>

definition unit_label :: jsstring where
  \<comment> \<open>\<^verbatim>\<open> zvyozd\<close> (the suffix of a stars value, with its leading space)\<close>
  \<open>unit_label =
     str '' '' @
     [0x0437, 0x0432, 0x0451, 0x0437, 0x0434]\<close>

definition title_not_found :: jsstring where
  \<comment> \<open>\<^verbatim>\<open>Ssylka ne naydena\<close>\<close>
  \<open>title_not_found =
     [0x0421, 0x0441, 0x044B, 0x043B, 0x043A, 0x0430, 0x0020, 0x043D, 0x0435, 0x0020, 0x043D, 0x0430,
      0x0439, 0x0434, 0x0435, 0x043D, 0x0430]\<close>

definition title_copy :: jsstring where
  \<comment> \<open>\<^verbatim>\<open>Skopirovat ssylku\<close>\<close>
  \<open>title_copy =
     [0x0421, 0x043A, 0x043E, 0x043F, 0x0438, 0x0440, 0x043E, 0x0432, 0x0430, 0x0442, 0x044C, 0x0020,
      0x0441, 0x0441, 0x044B, 0x043B, 0x043A, 0x0443]\<close>

definition description_not_found :: jsstring where
  \<comment> \<open>\<^verbatim>\<open>Eta ssylka ne naydena ili istekla.\<close>\<close>
  \<open>description_not_found =
     [0x042D, 0x0442, 0x0430, 0x0020, 0x0441, 0x0441, 0x044B, 0x043B, 0x043A, 0x0430, 0x0020, 0x043D,
      0x0435, 0x0020, 0x043D, 0x0430, 0x0439, 0x0434, 0x0435, 0x043D, 0x0430, 0x0020, 0x0438, 0x043B,
      0x0438, 0x0020, 0x0438, 0x0441, 0x0442, 0x0435, 0x043A, 0x043B, 0x0430] @
     str ''.''\<close>

definition description_copy :: jsstring where
  \<comment> \<open>\<^verbatim>\<open>Nazhmite knopku, chtoby skopirovat: \<close> (followed by the full URL)\<close>
  \<open>description_copy =
     [0x041D, 0x0430, 0x0436, 0x043C, 0x0438, 0x0442, 0x0435, 0x0020, 0x043A, 0x043D, 0x043E, 0x043F,
      0x043A, 0x0443, 0x002C, 0x0020, 0x0447, 0x0442, 0x043E, 0x0431, 0x044B, 0x0020, 0x0441, 0x043A,
      0x043E, 0x043F, 0x0438, 0x0440, 0x043E, 0x0432, 0x0430, 0x0442, 0x044C] @
     str '': ''\<close>

text \<open>
  The fixed parts of the template literal of \<open>buildCopyHtml\<close>, between its
  placeholders, one source line per string.
\<close>

definition page_head :: jsstring where
  \<comment> \<open>up to the title\<close>
  \<open>page_head =
     str ''<!doctype html>\<newline>'' @
     str ''<html>\<newline>'' @
     str ''<head>\<newline>'' @
     str ''  <meta charset="utf-8" />\<newline>'' @
     str ''  <meta name="viewport" content="width=device-width, initial-scale=1" />\<newline>'' @
     str ''  <title>''\<close>

definition page_style :: jsstring where
  \<comment> \<open>from the title to the heading of the card\<close>
  \<open>page_style =
     str ''</title>\<newline>'' @
     str ''  <style>\<newline>'' @
     str ''    :root { --bg: #0b1020; --card: #0f1724; --accent: #00d1ff; --text: #ffffff; }\<newline>'' @
     str ''    body { margin:0; font-family: Inter, system-ui, -apple-system, 'Segoe UI', Roboto, 'Helvetica Neue', Arial; background: linear-gradient(135deg,#071226 0%, #081224 100%); color: var(--text); display:flex; align-items:center; justify-content:center; height:100vh; }\<newline>'' @
     str ''    .card { background: var(--card); padding:28px; border-radius:14px; box-shadow: 0 10px 30px rgba(2,6,23,0.6); max-width:520px; width:90%; text-align:center; }\<newline>'' @
     str ''    .title { font-size:22px; font-weight:800; color:var(--accent); margin-bottom:8px; }\<newline>'' @
     str ''    .desc { font-size:16px; color:#e6f7ff; margin-bottom:18px; }\<newline>'' @
     str ''    .value { font-size:20px; font-weight:700; color:#fff; background: rgba(255,255,255,0.03); padding:10px 14px; border-radius:8px; margin-bottom:18px; }\<newline>'' @
     str ''    .btn { display:inline-block; padding:12px 20px; background:var(--accent); color:#022; font-weight:800; border-radius:10px; text-decoration:none; cursor:pointer; }\<newline>'' @
     str ''    .hint { margin-top:12px; color:#9fbfdc; font-size:13px; }\<newline>'' @
     str ''  </style>\<newline>'' @
     str ''</head>\<newline>'' @
     str ''<body>\<newline>'' @
     str ''  <div class="card">\<newline>'' @
     str ''    <div class="title">''\<close>

definition page_desc_open :: jsstring where
  \<comment> \<open>between the heading and the description\<close>
  \<open>page_desc_open =
     str ''</div>\<newline>'' @
     str ''    <div class="desc">''\<close>

definition page_desc_close :: jsstring where
  \<comment> \<open>between the description and the value\<close>
  \<open>page_desc_close =
     str ''</div>\<newline>'' @
     str ''    ''\<close>

definition page_controls :: jsstring where
  \<comment> \<open>the button, the hint and the script up to the copied text\<close>
  \<open>page_controls =
     str ''\<newline>'' @
     str ''    <button class="btn" id="copyBtn">'' @
     [0x0421, 0x043A, 0x043E, 0x043F, 0x0438, 0x0440, 0x043E, 0x0432, 0x0430, 0x0442, 0x044C, 0x0020,
      0x0441, 0x0441, 0x044B, 0x043B, 0x043A, 0x0443] @
     str ''</button>\<newline>'' @
     str ''    <div class="hint" id="hint">'' @
     [0x041E, 0x0436, 0x0438, 0x0434, 0x0430, 0x043D, 0x0438, 0x0435] @
     str ''...</div>\<newline>'' @
     str ''  </div>\<newline>'' @
     str ''  <script>\<newline>'' @
     str ''    const copyBtn = document.getElementById('copyBtn');\<newline>'' @
     str ''    const hint = document.getElementById('hint');\<newline>'' @
     str ''    const textToCopy = ''\<close>

definition page_script :: jsstring where
  \<comment> \<open>the rest of the script\<close>
  \<open>page_script =
     str '';\<newline>'' @
     str ''\<newline>'' @
     str ''    async function tryCopy() {\<newline>'' @
     str ''      try {\<newline>'' @
     str ''        if (navigator.clipboard && navigator.clipboard.writeText) {\<newline>'' @
     str ''          await navigator.clipboard.writeText(textToCopy);\<newline>'' @
     str ''        } else {\<newline>'' @
     str ''          const t = document.createElement('textarea');\<newline>'' @
     str ''          t.value = textToCopy; document.body.appendChild(t); t.select(); document.execCommand('copy'); t.remove();\<newline>'' @
     str ''        }\<newline>'' @
     str ''        hint.textContent = '' @
     [0x0027, 0x0421, 0x0441, 0x044B, 0x043B, 0x043A, 0x0430, 0x0020, 0x0441, 0x043A, 0x043E, 0x043F,
      0x0438, 0x0440, 0x043E, 0x0432, 0x0430, 0x043D, 0x0430, 0x0020, 0x0432, 0x0020, 0x0431, 0x0443,
      0x0444, 0x0435, 0x0440, 0x0020, 0x043E, 0x0431, 0x043C, 0x0435, 0x043D, 0x0430] @
     str ''!';\<newline>'' @
     str ''      } catch (e) {\<newline>'' @
     str ''        hint.textContent = '' @
     [0x0027, 0x041D, 0x0435, 0x0020, 0x0443, 0x0434, 0x0430, 0x043B, 0x043E, 0x0441, 0x044C, 0x0020,
      0x0441, 0x043A, 0x043E, 0x043F, 0x0438, 0x0440, 0x043E, 0x0432, 0x0430, 0x0442, 0x044C, 0x0020,
      0x0430, 0x0432, 0x0442, 0x043E, 0x043C, 0x0430, 0x0442, 0x0438, 0x0447, 0x0435, 0x0441, 0x043A,
      0x0438, 0x002E, 0x0020, 0x041D, 0x0430, 0x0436, 0x043C, 0x0438, 0x0442, 0x0435, 0x0020, 0x043A,
      0x043D, 0x043E, 0x043F, 0x043A, 0x0443] @
     str ''.';\<newline>'' @
     str ''      }\<newline>'' @
     str ''    }\<newline>'' @
     str ''\<newline>'' @
     str ''    // Try to copy on load (may be blocked by browser), then rely on button\<newline>'' @
     str ''    window.addEventListener('load', () => {\<newline>'' @
     str ''      tryCopy();\<newline>'' @
     str ''    });\<newline>'' @
     str ''\<newline>'' @
     str ''    copyBtn.addEventListener('click', async () => {\<newline>'' @
     str ''      await tryCopy();\<newline>'' @
     str ''    });\<newline>'' @
     str ''  </script>\<newline>'' @
     str ''</body>\<newline>'' @
     str ''</html>''\<close>

subsection \<open>\<open>JSON.stringify\<close> of a string\<close>

text \<open>
  The string in double quotes; the quote, the backslash and the control characters are
  escaped, and so is a surrogate that is not part of a pair.
\<close>

definition hex_digit :: "nat \<Rightarrow> jschar" where
  "hex_digit d = (if d < 10 then of_nat (0x30 + d) else of_nat (0x61 + (d - 10)))"

definition unicode_escape :: "jschar \<Rightarrow> jsstring" where
  \<comment> \<open>\<open>\uXXXX\<close> with lower case hexadecimal digits\<close>
  "unicode_escape c =
     [0x5C, 0x75, hex_digit (unat c div 4096), hex_digit (unat c div 256 mod 16),
      hex_digit (unat c div 16 mod 16), hex_digit (unat c mod 16)]"

definition is_high_surrogate :: "jschar \<Rightarrow> bool" where
  "is_high_surrogate c \<longleftrightarrow> 0xD800 \<le> c \<and> c \<le> 0xDBFF"

definition is_low_surrogate :: "jschar \<Rightarrow> bool" where
  "is_low_surrogate c \<longleftrightarrow> 0xDC00 \<le> c \<and> c \<le> 0xDFFF"

definition json_escape :: "jschar \<Rightarrow> jsstring" where
  "json_escape c =
     (if c = 0x08 then [0x5C, 0x62]
      else if c = 0x09 then [0x5C, 0x74]
      else if c = 0x0A then [0x5C, 0x6E]
      else if c = 0x0C then [0x5C, 0x66]
      else if c = 0x0D then [0x5C, 0x72]
      else if c = 0x22 then [0x5C, 0x22]
      else if c = 0x5C then [0x5C, 0x5C]
      else if c < 0x20 \<or> is_high_surrogate c \<or> is_low_surrogate c then unicode_escape c
      else [c])"

fun json_quote :: "jsstring \<Rightarrow> jsstring" where
  "json_quote [] = []"
| "json_quote [c] = json_escape c"
| "json_quote (c # d # cs) =
     (if is_high_surrogate c \<and> is_low_surrogate d then c # d # json_quote cs
      else json_escape c @ json_quote (d # cs))"

definition JSON_stringify :: "jsstring \<Rightarrow> jsstring" where
  "JSON_stringify s = [0x22] @ json_quote s @ [0x22]"

subsection \<open>\<open>buildCopyHtml\<close>\<close>

definition displayValue :: "request_row option \<Rightarrow> jsstring" where
  "displayValue row =
     (case row of
        None \<Rightarrow> []
      | Some r \<Rightarrow>
          if request_type r = Some (str ''stars'') then request_value r @ unit_label
          else request_value r)"

definition value_block :: "jsstring \<Rightarrow> jsstring" where
  \<comment> \<open>the placeholder of the value: nothing when \<open>displayValue\<close> is the empty string\<close>
  \<open>value_block dv =
     (if dv \<noteq> [] then str ''<div class="value">'' @ dv @ str ''</div>'' else [])\<close>

definition buildCopyHtml :: "jsstring \<Rightarrow> request_row option \<Rightarrow> bool \<Rightarrow> jsstring" where
  "buildCopyHtml fullUrl row notFound =
     (let title = (if notFound then title_not_found else title_copy);
          description = (if notFound then description_not_found else description_copy @ fullUrl)
      in page_head @ title @ page_style @ title @ page_desc_open @ description @
         page_desc_close @ value_block (displayValue row) @ page_controls @
         JSON_stringify fullUrl @ page_script)"

section \<open>The route \<open>/c/:token\<close>\<close>

record response =
  status :: nat
  body :: jsstring

text \<open>
  The callback that line 429 passes to \<open>app.get\<close>. \<open>res.send\<close> answers with status
  200 unless \<open>res.status\<close> was called. The base URL is
  \<open>process.env.BASE_URL || 'https://borkstudio'\<close>, a parameter here. The lookup is the
  only query of the callback, so it never changes the stored data. The query is rejected
  when the server cannot be reached, and also when the token holds the code unit 0 (a
  path segment with \<open>%00\<close>), which PostgreSQL refuses in a text parameter; the callback
  catches the rejection and answers 500.
\<close>

definition copy_handler :: "jsstring \<Rightarrow> pool \<Rightarrow> jsstring \<Rightarrow> response" where
  "copy_handler BASE_URL pool token =
     (let fullUrl = BASE_URL @ str ''/c/'' @ token in
      case pool of
        None \<Rightarrow> \<lparr>status = 200, body = buildCopyHtml fullUrl None False\<rparr>
      | Some db \<Rightarrow>
          if \<not> reachable db then \<lparr>status = 500, body = str ''Server error''\<rparr>
          else if 0 \<in> set token then \<lparr>status = 500, body = str ''Server error''\<rparr>
          else (case requests db token of
                  None \<Rightarrow> \<lparr>status = 404, body = buildCopyHtml fullUrl None True\<rparr>
                | Some row \<Rightarrow> \<lparr>status = 200, body = buildCopyHtml fullUrl (Some row) False\<rparr>))"

section \<open>Loading the module\<close>

text \<open>
  The statements at the top level of the module run once, in source order, when the
  program starts. A \<open>const\<close> binding of the module cannot be read before its
  declaration has run: the read throws a \<open>ReferenceError\<close>, and an error thrown while
  the module loads ends the process. Function declarations are hoisted and can be called
  from the first statement on. A callback that a statement passes on is not run by that
  statement, so only the names that the statement itself reads are listed; the call of
  \<open>main\<close> in the last line runs the body of \<open>main\<close> and reads what that body reads.

  A statement is given by its source line, the \<open>const\<close> bindings it declares, the
  bindings of the module it reads, and what it sets up.
\<close>

datatype js_error = ReferenceError string

datatype registration = Nothing | Route string | BotHandlers | CallMain

datatype statement = Statement nat "string list" "string list" registration

fun declares :: "statement \<Rightarrow> string list" where
  "declares (Statement line ds rs su) = ds"

definition module_statements :: "statement list" where
  "module_statements =
     [Statement 273 [] [] Nothing,
      Statement 274 [''express''] [] Nothing,
      Statement 275 [''Telegraf'', ''Markup''] [] Nothing,
      Statement 276 [''Pool''] [] Nothing,
      Statement 277 [''randomUUID''] [] Nothing,
      Statement 280 [''BOT_TOKEN''] [] Nothing,
      Statement 281 [] [''BOT_TOKEN''] Nothing,
      Statement 284 [''PORT''] [] Nothing,
      Statement 285 [''DATABASE_URL''] [] Nothing,
      Statement 286 [''BASE_URL''] [] Nothing,
      Statement 287 [''BOT_OWNER_ID''] [] Nothing,
      Statement 316 [''SPONSOR_LINKS''] [] Nothing,
      Statement 330 [''pool''] [''DATABASE_URL'', ''Pool''] Nothing,
      Statement 429 [] [''app''] (Route ''/c/:token''),
      Statement 521 [''bot''] [''BOT_TOKEN'', ''Telegraf''] Nothing,
      Statement 523 [] [''bot''] BotHandlers,
      Statement 599 [''app''] [''express''] Nothing,
      Statement 600 [] [''app''] (Route ''/''),
      Statement 603 [] [''app''] (Route ''/health''),
      Statement 628 [] [''pool'', ''bot'', ''app'', ''PORT''] CallMain]"

text \<open>
  What loading has set up so far: the registered routes, whether the bot handlers are
  registered (they are only when a bot token is configured), whether \<open>main\<close> was called.
\<close>

record server =
  routes :: "string list"
  bot_handlers :: bool
  main_called :: bool

fun set_up :: "bool \<Rightarrow> registration \<Rightarrow> server \<Rightarrow> server" where
  "set_up has_bot Nothing srv = srv"
| "set_up has_bot (Route path) srv = srv\<lparr>routes := routes srv @ [path]\<rparr>"
| "set_up has_bot BotHandlers srv = srv\<lparr>bot_handlers := has_bot\<rparr>"
| "set_up has_bot CallMain srv = srv\<lparr>main_called := True\<rparr>"

fun run_statements ::
  "bool \<Rightarrow> string list \<Rightarrow> string list \<Rightarrow> server \<Rightarrow> statement list \<Rightarrow> js_error + server" where
  "run_statements has_bot bindings initialised srv [] = Inr srv"
| "run_statements has_bot bindings initialised srv (Statement line ds rs su # rest) =
     (case find (\<lambda>n. n \<in> set bindings \<and> n \<notin> set initialised) rs of
        Some n \<Rightarrow> Inl (ReferenceError n)
      | None \<Rightarrow>
          run_statements has_bot bindings (initialised @ ds) (set_up has_bot su srv) rest)"

definition load_module :: "bool \<Rightarrow> js_error + server" where
  \<comment> \<open>the argument says whether \<open>BOT_TOKEN\<close> is configured\<close>
  "load_module has_bot =
     run_statements has_bot (concat (map declares module_statements)) []
       \<lparr>routes = [], bot_handlers = False, main_called = False\<rparr> module_statements"

text \<open>
  What a client gets for \<open>GET /c/<token>\<close> from the program as it is started: the
  answer of the callback if loading registered the route, and no answer at all
  (\<open>None\<close>) if loading threw or never registered it.
\<close>

definition copy_route :: "bool \<Rightarrow> jsstring \<Rightarrow> pool \<Rightarrow> jsstring \<Rightarrow> response option" where
  "copy_route has_bot BASE_URL pool token =
     (case load_module has_bot of
        Inl e \<Rightarrow> None
      | Inr srv \<Rightarrow>
          if ''/c/:token'' \<in> set (routes srv) then Some (copy_handler BASE_URL pool token)
          else None)"

section \<open>The bot\<close>

text \<open>
  What a handler says to the chat platform, in order: a reply, a reply with an inline
  keyboard (rows of buttons, each a label with callback data or with a URL), the
  acknowledgement of a callback query (with its text, if any), an error written to the
  console. The calls to the chat platform are taken to succeed.
\<close>

datatype button = CallbackButton jsstring jsstring | UrlButton jsstring jsstring

datatype effect =
  Reply jsstring
  | ReplyKeyboard jsstring "button list list"
  | AnswerCbQuery "jsstring option"
  | LogError

definition BOT_OWNER_ID :: int where
  "BOT_OWNER_ID = 6910097562"

definition msg_unavailable :: jsstring where
  \<comment> \<open>\<^verbatim>\<open>Deystvie nedostupno.\<close>\<close>
  \<open>msg_unavailable =
     [0x0414, 0x0435, 0x0439, 0x0441, 0x0442, 0x0432, 0x0438, 0x0435, 0x0020, 0x043D, 0x0435, 0x0434,
      0x043E, 0x0441, 0x0442, 0x0443, 0x043F, 0x043D, 0x043E] @
     str ''.''\<close>

definition msg_prompt :: jsstring where
  \<comment> \<open>\<^verbatim>\<open>Otpravte kolichestvo zvyozd (chislom) ili ssylku na NFT, kotoruyu khotite zabrat.\<close>\<close>
  \<open>msg_prompt =
     [0x041E, 0x0442, 0x043F, 0x0440, 0x0430, 0x0432, 0x044C, 0x0442, 0x0435, 0x0020, 0x043A, 0x043E,
      0x043B, 0x0438, 0x0447, 0x0435, 0x0441, 0x0442, 0x0432, 0x043E, 0x0020, 0x0437, 0x0432, 0x0451,
      0x0437, 0x0434, 0x0020, 0x0028, 0x0447, 0x0438, 0x0441, 0x043B, 0x043E, 0x043C, 0x0029, 0x0020,
      0x0438, 0x043B, 0x0438, 0x0020, 0x0441, 0x0441, 0x044B, 0x043B, 0x043A, 0x0443, 0x0020, 0x043D,
      0x0430, 0x0020, 0x004E, 0x0046, 0x0054, 0x002C, 0x0020, 0x043A, 0x043E, 0x0442, 0x043E, 0x0440,
      0x0443, 0x044E, 0x0020, 0x0445, 0x043E, 0x0442, 0x0438, 0x0442, 0x0435, 0x0020, 0x0437, 0x0430,
      0x0431, 0x0440, 0x0430, 0x0442, 0x044C] @
     str ''.''\<close>

definition msg_invalid :: jsstring where
  \<comment> \<open>\<^verbatim>\<open>Pozhaluysta, otpravte polozhitelnoe chislo (zvyozdy) ili korrektnuyu ssylku (NFT).\<close>\<close>
  \<open>msg_invalid =
     [0x041F, 0x043E, 0x0436, 0x0430, 0x043B, 0x0443, 0x0439, 0x0441, 0x0442, 0x0430, 0x002C, 0x0020,
      0x043E, 0x0442, 0x043F, 0x0440, 0x0430, 0x0432, 0x044C, 0x0442, 0x0435, 0x0020, 0x043F, 0x043E,
      0x043B, 0x043E, 0x0436, 0x0438, 0x0442, 0x0435, 0x043B, 0x044C, 0x043D, 0x043E, 0x0435, 0x0020,
      0x0447, 0x0438, 0x0441, 0x043B, 0x043E, 0x0020, 0x0028, 0x0437, 0x0432, 0x0451, 0x0437, 0x0434,
      0x044B, 0x0029, 0x0020, 0x0438, 0x043B, 0x0438, 0x0020, 0x043A, 0x043E, 0x0440, 0x0440, 0x0435,
      0x043A, 0x0442, 0x043D, 0x0443, 0x044E, 0x0020, 0x0441, 0x0441, 0x044B, 0x043B, 0x043A, 0x0443] @
     str '' (NFT).''\<close>

definition msg_not_positive :: jsstring where
  \<comment> \<open>\<^verbatim>\<open>Kolichestvo zvyozd dolzhno byt bolshe 0. Poprobuyte snova.\<close>\<close>
  \<open>msg_not_positive =
     [0x041A, 0x043E, 0x043B, 0x0438, 0x0447, 0x0435, 0x0441, 0x0442, 0x0432, 0x043E, 0x0020, 0x0437,
      0x0432, 0x0451, 0x0437, 0x0434, 0x0020, 0x0434, 0x043E, 0x043B, 0x0436, 0x043D, 0x043E, 0x0020,
      0x0431, 0x044B, 0x0442, 0x044C, 0x0020, 0x0431, 0x043E, 0x043B, 0x044C, 0x0448, 0x0435, 0x0020,
      0x0030, 0x002E, 0x0020, 0x041F, 0x043E, 0x043F, 0x0440, 0x043E, 0x0431, 0x0443, 0x0439, 0x0442,
      0x0435, 0x0020, 0x0441, 0x043D, 0x043E, 0x0432, 0x0430] @
     str ''.''\<close>

definition msg_done :: jsstring where
  \<comment> \<open>\<^verbatim>\<open>Gotovo! Vasha unikalnaya ssylka: \<close>\<close>
  \<open>msg_done =
     [0x0413, 0x043E, 0x0442, 0x043E, 0x0432, 0x043E, 0x0021, 0x0020, 0x0412, 0x0430, 0x0448, 0x0430,
      0x0020, 0x0443, 0x043D, 0x0438, 0x043A, 0x0430, 0x043B, 0x044C, 0x043D, 0x0430, 0x044F, 0x0020,
      0x0441, 0x0441, 0x044B, 0x043B, 0x043A, 0x0430] @
     str '': ''\<close>

definition msg_error :: jsstring where
  \<comment> \<open>\<^verbatim>\<open>Proizoshla oshibka. Poprobuyte eshchyo raz.\<close>\<close>
  \<open>msg_error =
     [0x041F, 0x0440, 0x043E, 0x0438, 0x0437, 0x043E, 0x0448, 0x043B, 0x0430, 0x0020, 0x043E, 0x0448,
      0x0438, 0x0431, 0x043A, 0x0430, 0x002E, 0x0020, 0x041F, 0x043E, 0x043F, 0x0440, 0x043E, 0x0431,
      0x0443, 0x0439, 0x0442, 0x0435, 0x0020, 0x0435, 0x0449, 0x0451, 0x0020, 0x0440, 0x0430, 0x0437] @
     str ''.''\<close>

definition awaiting_request :: jsstring where
  "awaiting_request = str ''awaiting_request''"

definition msg_greeting :: jsstring where
  \<comment> \<open>\<^verbatim>\<open>Privet! Ya bot, kotoryy pomogaet zabirat NFT-podarok ili zvyozdy u drugogo polzovatelya po spetsialnoy ssylke.\<close>\<close>
  \<open>msg_greeting =
     [0x041F, 0x0440, 0x0438, 0x0432, 0x0435, 0x0442, 0x0021, 0x0020, 0x042F, 0x0020, 0x0431, 0x043E,
      0x0442, 0x002C, 0x0020, 0x043A, 0x043E, 0x0442, 0x043E, 0x0440, 0x044B, 0x0439, 0x0020, 0x043F,
      0x043E, 0x043C, 0x043E, 0x0433, 0x0430, 0x0435, 0x0442, 0x0020, 0x0437, 0x0430, 0x0431, 0x0438,
      0x0440, 0x0430, 0x0442, 0x044C, 0x0020, 0x004E, 0x0046, 0x0054, 0x002D, 0x043F, 0x043E, 0x0434,
      0x0430, 0x0440, 0x043E, 0x043A, 0x0020, 0x0438, 0x043B, 0x0438, 0x0020, 0x0437, 0x0432, 0x0451,
      0x0437, 0x0434, 0x044B, 0x0020, 0x0443, 0x0020, 0x0434, 0x0440, 0x0443, 0x0433, 0x043E, 0x0433,
      0x043E, 0x0020, 0x043F, 0x043E, 0x043B, 0x044C, 0x0437, 0x043E, 0x0432, 0x0430, 0x0442, 0x0435,
      0x043B, 0x044F, 0x0020, 0x043F, 0x043E, 0x0020, 0x0441, 0x043F, 0x0435, 0x0446, 0x0438, 0x0430,
      0x043B, 0x044C, 0x043D, 0x043E, 0x0439, 0x0020, 0x0441, 0x0441, 0x044B, 0x043B, 0x043A, 0x0435] @
     str ''.''\<close>

definition label_get_link :: jsstring where
  \<comment> \<open>\<^verbatim>\<open>Poluchit ssylku\<close>\<close>
  \<open>label_get_link =
     [0x041F, 0x043E, 0x043B, 0x0443, 0x0447, 0x0438, 0x0442, 0x044C, 0x0020, 0x0441, 0x0441, 0x044B,
      0x043B, 0x043A, 0x0443]\<close>

definition msg_subscribe :: jsstring where
  \<comment> \<open>\<^verbatim>\<open>Pozhaluysta, podpishites na vsekh sponsorov i vernites.\<close>\<close>
  \<open>msg_subscribe =
     [0x041F, 0x043E, 0x0436, 0x0430, 0x043B, 0x0443, 0x0439, 0x0441, 0x0442, 0x0430, 0x002C, 0x0020,
      0x043F, 0x043E, 0x0434, 0x043F, 0x0438, 0x0448, 0x0438, 0x0442, 0x0435, 0x0441, 0x044C, 0x0020,
      0x043D, 0x0430, 0x0020, 0x0432, 0x0441, 0x0435, 0x0445, 0x0020, 0x0441, 0x043F, 0x043E, 0x043D,
      0x0441, 0x043E, 0x0440, 0x043E, 0x0432, 0x0020, 0x0438, 0x0020, 0x0432, 0x0435, 0x0440, 0x043D,
      0x0438, 0x0442, 0x0435, 0x0441, 0x044C] @
     str ''.''\<close>

definition label_sponsor :: jsstring where
  \<comment> \<open>\<^verbatim>\<open>Sponsor \<close>\<close>
  \<open>label_sponsor =
     [0x0421, 0x043F, 0x043E, 0x043D, 0x0441, 0x043E, 0x0440] @
     str '' ''\<close>

text \<open>
  \<open>buildSponsorKeyboard\<close>: one URL button per link, labelled with its position counted
  from 1, two buttons per row.
\<close>

fun rows_of_two :: "'a list \<Rightarrow> 'a list list" where
  "rows_of_two [] = []"
| "rows_of_two [x] = [[x]]"
| "rows_of_two (x # y # zs) = [x, y] # rows_of_two zs"

definition buildSponsorKeyboard :: "jsstring list \<Rightarrow> button list list" where
  "buildSponsorKeyboard links =
     rows_of_two (map (\<lambda>(l, i). UrlButton (label_sponsor @ decimal (i + 1)) l)
                    (zip links [0..<length links]))"

text \<open>
  \<open>bot.start(...)\<close>, for the user \<open>ctx.from\<close>; \<open>SPONSOR_LINKS\<close> is the parsed
  configuration.
\<close>

definition on_start :: "jsstring list \<Rightarrow> pool \<Rightarrow> telegram_user \<Rightarrow> effect list \<times> pool" where
  "on_start SPONSOR_LINKS pool from =
     (case upsertUser pool (Some from) of
        Inl e \<Rightarrow> ([LogError], pool)
      | Inr pool' \<Rightarrow>
          if id from = BOT_OWNER_ID
          then ([ReplyKeyboard msg_greeting
                   [[CallbackButton label_get_link (str ''get_link'')]]], pool')
          else if length SPONSOR_LINKS \<noteq> 0
          then ([ReplyKeyboard msg_subscribe (buildSponsorKeyboard SPONSOR_LINKS)], pool')
          else ([Reply msg_subscribe], pool'))"

text \<open>\<open>bot.action('get_link', ...)\<close>, for the identity \<open>ctx.from.id\<close>.\<close>

definition on_get_link :: "pool \<Rightarrow> int \<Rightarrow> effect list \<times> pool" where
  "on_get_link pool from_id =
     (if from_id \<noteq> BOT_OWNER_ID then ([AnswerCbQuery (Some msg_unavailable)], pool)
      else case setUserState pool from_id awaiting_request of
             Inl e \<Rightarrow> ([AnswerCbQuery None, LogError], pool)
           | Inr pool' \<Rightarrow> ([AnswerCbQuery None, Reply msg_prompt], pool'))"

text \<open>
  \<open>bot.on('text', ...)\<close>, for the identity \<open>ctx.from.id\<close> and the text
  \<open>ctx.message.text\<close>. The random source feeds \<open>Math.random\<close>.
\<close>

definition on_text ::
  "jsstring \<Rightarrow> random_source \<Rightarrow> pool \<Rightarrow> int \<Rightarrow> jsstring \<Rightarrow> effect list \<times> pool" where
  "on_text BASE_URL rnd pool from_id message_text =
     (case getUserState pool from_id of
        Inl e \<Rightarrow> ([LogError, Reply msg_error], pool)
      | Inr state \<Rightarrow>
          if from_id \<noteq> BOT_OWNER_ID \<or> state \<noteq> Some awaiting_request then ([], pool)
          else
            let text = trim message_text in
            if \<not> isNumber text \<and> \<not> isUrl text then ([Reply msg_invalid], pool)
            else
              let type = (if isNumber text then str ''stars'' else str ''nft'');
                  val = (if isNumber text then NumberValue (parseInt10 text)
                         else StringValue text)
              in
              if isNumber text \<and> le_zero (parseInt10 text) then ([Reply msg_not_positive], pool)
              else
                let token = generateRandomToken rnd 14;
                    link = BASE_URL @ str ''/c/'' @ token
                in
                (case saveRequest pool token from_id type val link of
                   Inl e \<Rightarrow> ([LogError, Reply msg_error], pool)
                 | Inr pool1 \<Rightarrow>
                     (case clearUserState pool1 from_id of
                        Inl e \<Rightarrow> ([LogError, Reply msg_error], pool1)
                      | Inr pool2 \<Rightarrow> ([Reply (msg_done @ link)], pool2))))"

section \<open>Properties of the flow\<close>

subsection \<open>Containment in a concatenation\<close>

lemma sublist_left: "sublist x y \<Longrightarrow> sublist x (a @ y)"
proof -
  assume "sublist x y"
  then obtain ps ss where "y = ps @ x @ ss" by (auto simp: sublist_def)
  then have "a @ y = (a @ ps) @ x @ ss" by simp
  then show ?thesis unfolding sublist_def by blast
qed

lemma sublist_right: "sublist x y \<Longrightarrow> sublist x (y @ b)"
proof -
  assume "sublist x y"
  then obtain ps ss where "y = ps @ x @ ss" by (auto simp: sublist_def)
  then have "y @ b = ps @ x @ (ss @ b)" by simp
  then show ?thesis unfolding sublist_def by blast
qed

lemma sublist_self: "sublist x x"
  by simp

lemma page_contains_value_block:
  "sublist (value_block (displayValue row)) (buildCopyHtml fullUrl row notFound)"
proof -
  obtain a b where "buildCopyHtml fullUrl row notFound = a @ value_block (displayValue row) @ b"
    by (simp add: buildCopyHtml_def Let_def) (metis append.assoc)
  then show ?thesis by (simp add: sublist_appendI)
qed

lemma page_contains_title:
  "sublist (if notFound then title_not_found else title_copy) (buildCopyHtml fullUrl row notFound)"
  unfolding buildCopyHtml_def Let_def by (rule sublist_appendI)

lemma page_contains_description:
  "sublist (if notFound then description_not_found else description_copy @ fullUrl)
     (buildCopyHtml fullUrl row notFound)"
proof -
  obtain a b where "buildCopyHtml fullUrl row notFound =
      a @ (if notFound then description_not_found else description_copy @ fullUrl) @ b"
    by (simp add: buildCopyHtml_def Let_def) (metis append.assoc)
  then show ?thesis by (simp only: sublist_appendI)
qed

lemma found_page_contains_url: "sublist fullUrl (buildCopyHtml fullUrl row False)"
proof -
  have "sublist fullUrl (description_copy @ fullUrl)" by (rule sublist_left) simp
  then show ?thesis
    using page_contains_description [of False fullUrl row] sublist_order.order_trans by fastforce
qed

lemma value_block_contains: "sublist dv (value_block dv)"
  by (simp add: value_block_def sublist_left sublist_right)

lemma unit_label_nonempty: "unit_label \<noteq> []"
  by (simp add: unit_label_def str_def)

lemma displayValue_Some:
  "displayValue (Some r) =
     (if request_type r = Some (str ''stars'') then request_value r @ unit_label
      else request_value r)"
  by (simp add: displayValue_def)

lemma page_contains_displayValue:
  "sublist (displayValue row) (buildCopyHtml fullUrl row notFound)"
  using value_block_contains [of "displayValue row"]
    page_contains_value_block [of row fullUrl notFound] sublist_order.order_trans
  by blast

lemma page_contains_request_value:
  "sublist (request_value r) (buildCopyHtml fullUrl (Some r) notFound)"
proof -
  have "sublist (request_value r) (displayValue (Some r))"
    by (simp add: displayValue_Some sublist_right)
  then show ?thesis
    using page_contains_displayValue [of "Some r" fullUrl notFound] sublist_order.order_trans
    by blast
qed

subsection \<open>The not-found page differs from the other pages\<close>

lemma titles_differ: "title_not_found @ x \<noteq> title_copy @ y"
  by (simp add: title_not_found_def title_copy_def)

lemma not_found_page_distinct:
  "buildCopyHtml url None True \<noteq> buildCopyHtml url' row False"
  by (simp add: buildCopyHtml_def titles_differ)

lemma server_error_not_page: "str ''Server error'' \<noteq> buildCopyHtml url row notFound"
  by (simp add: buildCopyHtml_def page_head_def str_def)

subsection \<open>What the callback of the route answers\<close>

lemma copy_handler_not_found:
  assumes "reachable db" and "0 \<notin> set token" and "requests db token = None"
  shows "copy_handler BASE_URL (Some db) token =
           \<lparr>status = 404, body = buildCopyHtml (BASE_URL @ str ''/c/'' @ token) None True\<rparr> \<and>
         sublist title_not_found (body (copy_handler BASE_URL (Some db) token)) \<and>
         sublist description_not_found (body (copy_handler BASE_URL (Some db) token)) \<and>
         (\<forall>url row. body (copy_handler BASE_URL (Some db) token) \<noteq> buildCopyHtml url row False)"
proof -
  have r: "copy_handler BASE_URL (Some db) token =
           \<lparr>status = 404, body = buildCopyHtml (BASE_URL @ str ''/c/'' @ token) None True\<rparr>"
    using assms by (simp add: copy_handler_def)
  have t: "sublist title_not_found (buildCopyHtml (BASE_URL @ str ''/c/'' @ token) None True)"
    using page_contains_title [of True] by simp
  have d: "sublist description_not_found (buildCopyHtml (BASE_URL @ str ''/c/'' @ token) None True)"
    using page_contains_description [of True] by simp
  show ?thesis using r t d not_found_page_distinct by simp
qed

lemma copy_handler_server_error:
  "(status (copy_handler BASE_URL pool token) = 500) =
     (\<exists>db. pool = Some db \<and> (\<not> reachable db \<or> 0 \<in> set token))"
  by (auto simp: copy_handler_def Let_def split: option.splits)

lemma copy_handler_degraded:
  "copy_handler BASE_URL None token =
     \<lparr>status = 200, body = buildCopyHtml (BASE_URL @ str ''/c/'' @ token) None False\<rparr> \<and>
   sublist (BASE_URL @ str ''/c/'' @ token) (body (copy_handler BASE_URL None token)) \<and>
   displayValue None = [] \<and>
   body (copy_handler BASE_URL None token) =
     page_head @ title_copy @ page_style @ title_copy @ page_desc_open @
     description_copy @ (BASE_URL @ str ''/c/'' @ token) @ page_desc_close @ page_controls @
     JSON_stringify (BASE_URL @ str ''/c/'' @ token) @ page_script"
  using found_page_contains_url [of "BASE_URL @ str ''/c/'' @ token" None]
  by (simp add: copy_handler_def buildCopyHtml_def displayValue_def value_block_def)

subsection \<open>The route is never registered\<close>

lemma load_module_throws: "load_module has_bot = Inl (ReferenceError ''app'')"
  by (simp add: load_module_def module_statements_def)

lemma copy_route_unanswered: "copy_route has_bot BASE_URL pool token = None"
  by (simp add: copy_route_def load_module_throws)

definition empty_db :: database where
  "empty_db = \<lparr>users = Map.empty, requests = Map.empty, user_states = Map.empty,
     reachable = True\<rparr>"

text \<open>
  C7. The program does not answer an unknown token with the not-found page. Line 429
  registers the route on \<open>app\<close>, which is declared only in line 599, so loading the
  module throws a \<open>ReferenceError\<close> and the program serves no route. The callback
  itself, had it been registered, would answer this token with status 404 and the
  not-found variant of the page.
\<close>

theorem unknown_token_unanswered:
  "requests empty_db (str ''AAAAAAAAAAAAAA'') = None \<and>
   load_module True = Inl (ReferenceError ''app'') \<and>
   copy_route True (str ''https://borkstudio'') (Some empty_db) (str ''AAAAAAAAAAAAAA'') = None \<and>
   copy_handler (str ''https://borkstudio'') (Some empty_db) (str ''AAAAAAAAAAAAAA'') =
     \<lparr>status = 404,
      body = buildCopyHtml (str ''https://borkstudio'' @ str ''/c/'' @ str ''AAAAAAAAAAAAAA'')
               None True\<rparr>"
proof -
  have db: "reachable empty_db" "requests empty_db (str ''AAAAAAAAAAAAAA'') = None"
    by (simp_all add: empty_db_def)
  have nul: "0 \<notin> set (str ''AAAAAAAAAAAAAA'')" by (simp add: str_def)
  show ?thesis
    using copy_handler_not_found [OF db(1) nul db(2), of "str ''https://borkstudio''"] db(2)
    by (simp add: load_module_throws copy_route_unanswered)
qed

text \<open>
  C8. The program does not serve the degraded page either. Without persistence (and
  without a bot token) loading the module throws the same \<open>ReferenceError\<close> at line
  429, so no request is answered. The callback itself, had it been registered, would
  answer with status 200 and the copy variant of the page with an empty value placeholder.
\<close>

theorem degraded_page_unanswered:
  "load_module False = Inl (ReferenceError ''app'') \<and>
   copy_route False (str ''https://borkstudio'') None (str ''AAAAAAAAAAAAAA'') = None \<and>
   copy_handler (str ''https://borkstudio'') None (str ''AAAAAAAAAAAAAA'') =
     \<lparr>status = 200,
      body = buildCopyHtml (str ''https://borkstudio'' @ str ''/c/'' @ str ''AAAAAAAAAAAAAA'')
               None False\<rparr>"
  using copy_handler_degraded [of "str ''https://borkstudio''" "str ''AAAAAAAAAAAAAA''"]
  by (simp add: load_module_throws copy_route_unanswered)

text \<open>
  C10. The page builder does no HTML escaping. On the found variant the full URL and the
  stored request value are part of the page exactly as they are, whatever code units they
  contain, and so is the token that the route put into the full URL.
\<close>

theorem page_embeds_verbatim:
  "sublist fullUrl (buildCopyHtml fullUrl (Some row) False) \<and>
   sublist (request_value row) (buildCopyHtml fullUrl (Some row) False) \<and>
   sublist token (buildCopyHtml (BASE_URL @ str ''/c/'' @ token) (Some row) False)"
proof -
  have "sublist token (BASE_URL @ str ''/c/'' @ token)"
    by (intro sublist_left) simp
  then have "sublist token (buildCopyHtml (BASE_URL @ str ''/c/'' @ token) (Some row) False)"
    using found_page_contains_url sublist_order.order_trans by blast
  then show ?thesis
    using found_page_contains_url page_contains_request_value by simp
qed

subsection \<open>Messages that the flow ignores or rejects\<close>

lemma round_to_53_zero: "round_to_53 n = 0 \<longleftrightarrow> n = 0"
proof (cases "n < 2 ^ 53")
  case True
  then show ?thesis by (simp add: round_to_53_def)
next
  case False
  define e where "e = floorlog 2 n - 53"
  have n: "2 ^ 53 \<le> n" using False by simp
  then have pos: "0 < n" by (simp add: order_less_le_trans [of 0 "2 ^ 53" n])
  have "54 \<le> floorlog 2 n" using n by (rule floorlog_ge_54)
  then have "e \<le> floorlog 2 n - 1" by (simp add: e_def)
  then have "(2::nat) ^ e \<le> 2 ^ (floorlog 2 n - 1)" by (intro power_increasing) simp_all
  also have "\<dots> \<le> n" using floorlog_bounds [of n 2] pos by simp
  finally have "0 < n div 2 ^ e" by (simp add: div_greater_zero_iff)
  then have "round_to_53 n \<noteq> 0"
    using False by (simp add: round_to_53_def Let_def e_def)
  with pos show ?thesis by simp
qed

lemma le_zero_to_number: "le_zero (to_number n) \<longleftrightarrow> n = 0"
proof (cases "round_to_53 n < 2 ^ 1024")
  case True
  then show ?thesis by (simp add: to_number_def Let_def round_to_53_zero)
next
  case False
  have "n \<noteq> 0"
  proof
    assume "n = 0"
    then have "round_to_53 n = 0" by (simp add: round_to_53_zero)
    with False show False by simp
  qed
  with False show ?thesis by (simp add: to_number_def Let_def)
qed

lemma le_zero_parseInt10: "le_zero (parseInt10 s) \<longleftrightarrow> mathInt s = 0"
  by (simp add: parseInt10_def le_zero_to_number)

text \<open>
  C5. For an identity other than the owner, neither the get-link action nor a text message
  changes the stored data: the pool after the handler is the pool before it, so no state
  record and no request record is created, changed or deleted. The action is only
  acknowledged as unavailable; a text gets no reply unless reading the state failed. The
  command \<open>/start\<close>, which is handled by \<open>bot.start\<close>, touches the user table only.
\<close>

theorem non_owner_changes_nothing:
  assumes "from_id \<noteq> BOT_OWNER_ID"
  shows "on_get_link pool from_id = ([AnswerCbQuery (Some msg_unavailable)], pool) \<and>
         snd (on_text BASE_URL rnd pool from_id message_text) = pool \<and>
         map_option user_states (snd (on_start links pool user)) = map_option user_states pool \<and>
         map_option requests (snd (on_start links pool user)) = map_option requests pool"
proof -
  have "map_option user_states (snd (on_start links pool user)) = map_option user_states pool \<and>
        map_option requests (snd (on_start links pool user)) = map_option requests pool"
    by (cases pool) (auto simp: on_start_def upsertUser_def split: if_splits)
  then show ?thesis
    using assms by (simp add: on_get_link_def on_text_def split: sum.splits)
qed

definition awaiting_db :: database where
  \<comment> \<open>the owner is known and awaits a request; nothing is stored yet\<close>
  "awaiting_db =
     \<lparr>users = [BOT_OWNER_ID \<mapsto> \<lparr>username = None, first_name = None, last_name = None\<rparr>],
      requests = Map.empty,
      user_states = [BOT_OWNER_ID \<mapsto> awaiting_request],
      reachable = True\<rparr>"

theorem non_owner_changes_nothing_witness:
  "(42::int) \<noteq> BOT_OWNER_ID \<and>
   on_get_link (Some awaiting_db) 42 = ([AnswerCbQuery (Some msg_unavailable)], Some awaiting_db) \<and>
   snd (on_text (str ''https://borkstudio'') (\<lambda>i. 0) (Some awaiting_db) 42 (str ''42'')) =
     Some awaiting_db"
  using non_owner_changes_nothing [of 42 "Some awaiting_db" "str ''https://borkstudio''" "\<lambda>i. 0"
      "str ''42''"]
  by (simp add: BOT_OWNER_ID_def)

lemma awaiting_request_nonempty: "awaiting_request \<noteq> []"
  by (simp add: awaiting_request_def str_def)

lemma getUserState_awaiting:
  "reachable db \<Longrightarrow> user_states db uid = Some awaiting_request \<Longrightarrow>
   getUserState (Some db) uid = Inr (Some awaiting_request)"
  by (simp add: getUserState_def or_null_def awaiting_request_nonempty)

lemma on_text_rejects:
  assumes "reachable db" and "user_states db BOT_OWNER_ID = Some awaiting_request"
    and "classify (trim message_text) = Neither \<or>
         classify (trim message_text) = Stars \<and> mathInt (trim message_text) = 0"
  shows "on_text BASE_URL rnd (Some db) BOT_OWNER_ID message_text =
           ([Reply (if classify (trim message_text) = Neither then msg_invalid
                    else msg_not_positive)], Some db)"
proof -
  have st: "getUserState (Some db) BOT_OWNER_ID = Inr (Some awaiting_request)"
    using assms(1,2) by (rule getUserState_awaiting)
  show ?thesis
    using assms(3)
    by (auto simp: on_text_def st Let_def classify_def le_zero_parseInt10 split: if_splits)
qed

text \<open>
  C6. The owner awaits a request and sends a text that, trimmed, is neither a number nor a
  URL, or is a number of value zero. The handler replies with the corrective message of
  that case and nothing else, and the stored data stay as they were: the state is still
  \<open>awaiting_request\<close> and no request record is added.
\<close>

theorem invalid_text_keeps_state:
  assumes "reachable db" and "user_states db BOT_OWNER_ID = Some awaiting_request"
    and "classify (trim message_text) = Neither \<or>
         classify (trim message_text) = Stars \<and> mathInt (trim message_text) = 0"
  shows "on_text BASE_URL rnd (Some db) BOT_OWNER_ID message_text =
           ([Reply (if classify (trim message_text) = Neither then msg_invalid
                    else msg_not_positive)], Some db) \<and>
         getUserState (snd (on_text BASE_URL rnd (Some db) BOT_OWNER_ID message_text))
           BOT_OWNER_ID = Inr (Some awaiting_request) \<and>
         requests (the (snd (on_text BASE_URL rnd (Some db) BOT_OWNER_ID message_text))) =
           requests db"
  using on_text_rejects [OF assms] getUserState_awaiting [OF assms(1,2)] by simp

lemma hello_world_neither: "classify (trim (str ''hello world'')) = Neither"
proof -
  have t: "trim (str ''hello world'') = str ''hello world''"
    by (simp add: trim_def str_def is_whitespace_def)
  have "\<not> isNumber (str ''hello world'')"
    by (simp add: isNumber_iff str_def is_digit_def)
  moreover have "\<not> isUrl (str ''hello world'')"
    by (simp add: isUrl_def url_pattern_def str_def ci_def canonicalize_def Opt_def Plus_def)
  ultimately show ?thesis by (simp add: classify_def t)
qed

theorem invalid_text_keeps_state_witness:
  "reachable awaiting_db \<and> user_states awaiting_db BOT_OWNER_ID = Some awaiting_request \<and>
   classify (trim (str ''hello world'')) = Neither \<and>
   on_text (str ''https://borkstudio'') (\<lambda>i. 0) (Some awaiting_db) BOT_OWNER_ID
     (str ''hello world'') = ([Reply msg_invalid], Some awaiting_db)"
  using invalid_text_keeps_state [of awaiting_db "str ''hello world''"
      "str ''https://borkstudio''" "\<lambda>i. 0"] hello_world_neither
  by (simp add: awaiting_db_def)

subsection \<open>Numbers below \<open>2 ^ 53\<close> are parsed and printed exactly\<close>

lemma to_number_small: "n < 2 ^ 53 \<Longrightarrow> to_number n = Finite n"
proof -
  assume a: "n < 2 ^ 53"
  have "(2::nat) ^ 53 \<le> 2 ^ 1024" by (rule power_increasing) simp_all
  with a have "n < 2 ^ 1024" by (rule less_le_trans)
  with a show ?thesis by (simp add: to_number_def round_to_53_def)
qed

lemma round_to_53_large:
  assumes "2 ^ 53 \<le> n"
  shows "2 ^ 53 \<le> round_to_53 n"
proof -
  define e where "e = floorlog 2 n - 53"
  define q where "q = n div 2 ^ e"
  have fl: "54 \<le> floorlog 2 n" using assms by (rule floorlog_ge_54)
  then have e1: "1 \<le> e" by (simp add: e_def)
  have pos: "0 < n" using assms by (simp add: order_less_le_trans [of 0 "2 ^ 53" n])
  have "floorlog 2 n - 1 = 52 + e" using fl by (simp add: e_def)
  then have "(2::nat) ^ 52 * 2 ^ e \<le> n"
    using floorlog_bounds [of n 2] pos by (simp add: power_add)
  then have q52: "2 ^ 52 \<le> q" unfolding q_def by (simp add: less_eq_div_iff_mult_less_eq)
  have "(2::nat) ^ 1 \<le> 2 ^ e" using e1 by (intro power_increasing) simp_all
  then have e2: "(2::nat) \<le> 2 ^ e" by simp
  have "(2::nat) ^ 53 = 2 ^ 52 * 2" by simp
  also have "\<dots> \<le> q * 2 ^ e" using q52 e2 by (rule mult_le_mono)
  finally have base: "2 ^ 53 \<le> q * 2 ^ e" .
  have "q * 2 ^ e \<le> round_to_53 n"
    using assms by (simp add: round_to_53_def Let_def e_def q_def)
  with base show ?thesis by (rule le_trans)
qed

lemma to_number_exact_iff:
  assumes "v < 2 ^ 53"
  shows "to_number c = Finite v \<longleftrightarrow> c = v"
proof (cases "c < 2 ^ 53")
  case True
  then show ?thesis by (simp add: to_number_small)
next
  case False
  then have "2 ^ 53 \<le> round_to_53 c" by (intro round_to_53_large) simp
  with assms have "round_to_53 c \<noteq> v" by linarith
  moreover from False assms have "c \<noteq> v" by auto
  ultimately show ?thesis by (simp add: to_number_def Let_def)
qed

lemma candidate_small:
  assumes "v < 2 ^ 53" and "candidate v j = Some c"
  shows "c = v"
proof -
  have hi: "v div 10 ^ j * 10 ^ j + 10 ^ j \<noteq> v"
  proof -
    have "v mod 10 ^ j < 10 ^ j" by simp
    moreover have "v = v div 10 ^ j * 10 ^ j + v mod 10 ^ j" by (simp only: div_mult_mod_eq)
    ultimately show ?thesis by linarith
  qed
  from assms(2) show ?thesis
    unfolding candidate_def Let_def to_number_exact_iff [OF assms(1)]
    using hi by (simp split: if_splits)
qed

lemma shortest_from_small: "v < 2 ^ 53 \<Longrightarrow> shortest_from v j = v"
proof (induction j)
  case 0
  show ?case by simp
next
  case (Suc j)
  show ?case
  proof (cases "candidate v (Suc j)")
    case None
    with Suc show ?thesis by simp
  next
    case (Some c)
    with candidate_small [OF Suc.prems Some] show ?thesis by simp
  qed
qed

lemma number_to_string_small:
  assumes "v < 2 ^ 53"
  shows "number_to_string (Finite v) = decimal v"
proof -
  have "(2::nat) ^ 53 < 10 ^ 21" by simp
  with assms have "v < 10 ^ 21" by (rule less_trans)
  then show ?thesis
    using assms by (simp add: number_to_string_def shortest_def shortest_from_small)
qed

lemma String_parseInt10_small:
  "mathInt s < 2 ^ 53 \<Longrightarrow> number_to_string (parseInt10 s) = decimal (mathInt s)"
  by (simp add: parseInt10_def to_number_small number_to_string_small)

subsection \<open>A valid text completes the flow\<close>

lemma on_text_accepts:
  assumes "reachable db"
    and "user_states db BOT_OWNER_ID = Some awaiting_request"
    and "BOT_OWNER_ID \<in> dom (users db)"
    and "isNumber (trim message_text) \<and> 0 < mathInt (trim message_text) \<or>
         isUrl (trim message_text)"
  shows "on_text BASE_URL rnd (Some db) BOT_OWNER_ID message_text =
           ([Reply (msg_done @ BASE_URL @ str ''/c/'' @ generateRandomToken rnd 14)],
            Some (db\<lparr>requests := (requests db)(generateRandomToken rnd 14 \<mapsto>
                       \<lparr>user_id = BOT_OWNER_ID,
                        request_type =
                          Some (if isNumber (trim message_text) then str ''stars'' else str ''nft''),
                        request_value =
                          (if isNumber (trim message_text)
                           then number_to_string (parseInt10 (trim message_text))
                           else trim message_text),
                        generated_link = BASE_URL @ str ''/c/'' @ generateRandomToken rnd 14\<rparr>),
                     user_states := (user_states db)(BOT_OWNER_ID := None)\<rparr>))"
proof -
  have st: "getUserState (Some db) BOT_OWNER_ID = Inr (Some awaiting_request)"
    using assms(1,2) by (rule getUserState_awaiting)
  note known = assms(3)
  have ok: "\<not> (\<not> isNumber (trim message_text) \<and> \<not> isUrl (trim message_text))"
    using assms(4) by auto
  have pos: "\<not> (isNumber (trim message_text) \<and> le_zero (parseInt10 (trim message_text)))"
    using assms(4) not_number_and_url [of "trim message_text"]
    by (auto simp: le_zero_parseInt10)
  show ?thesis
    unfolding on_text_def st Let_def
    using ok pos known assms(1)
    by (auto simp: saveRequest_def clearUserState_def)
qed


subsection \<open>Evaluating the number model on numerals\<close>

lemma round_to_53_below: "n < 2 ^ 53 \<Longrightarrow> round_to_53 n = n"
  by (simp add: round_to_53_def)

lemma round_to_53_54_bits:
  assumes "2 ^ 53 \<le> n" and "n < 2 ^ 54"
  shows "round_to_53 n = (n div 2 + (if odd n \<and> odd (n div 2) then 1 else 0)) * 2"
proof -
  have fl: "floorlog 2 n = 54" using assms by (intro floorlog_eqI) simp_all
  have big: "\<not> n < 2 ^ 53" using assms(1) by simp
  have unfold: "round_to_53 n =
      (if 1 < n mod 2 \<or> (n mod 2 = 1 \<and> odd (n div 2)) then n div 2 + 1 else n div 2) * 2"
    using big by (simp add: round_to_53_def Let_def fl)
  show ?thesis
  proof (cases "odd n")
    case True
    then have "n mod 2 = 1" by presburger
    with True unfold show ?thesis by simp
  next
    case False
    then have "n mod 2 = 0" by presburger
    with False unfold show ?thesis by simp
  qed
qed

lemma shortest_from_unfold:
  "shortest_from v j =
     (if j = 0 then v
      else case candidate v j of Some c \<Rightarrow> c | None \<Rightarrow> shortest_from v (j - 1))"
  by (cases j) (auto split: option.splits)

lemma parseInt10_unsafe: "parseInt10 (str ''9007199254740993'') = Finite 9007199254740992"
proof -
  have m: "mathInt (str ''9007199254740993'') = 9007199254740993"
    by (simp add: mathInt_def str_def digit_value_def)
  have "round_to_53 9007199254740993 = 9007199254740992"
    by (simp add: round_to_53_54_bits)
  then show ?thesis by (simp add: parseInt10_def m to_number_def)
qed

lemma number_to_string_unsafe:
  "number_to_string (Finite 9007199254740992) = str ''9007199254740992''"
proof -
  have fl: "floorlog 10 9007199254740992 = 16" by (rule floorlog_eqI) simp_all
  have s: "shortest 9007199254740992 = 9007199254740992"
    unfolding shortest_def fl
    by (simp add: shortest_from_unfold candidate_def to_number_def Let_def
        round_to_53_below round_to_53_54_bits)
  show ?thesis
    by (simp add: number_to_string_def s decimal.simps str_def)
qed


definition zero_source :: random_source where
  \<comment> \<open>every call of \<open>Math.random\<close> returns 0\<close>
  "zero_source i = 0"

lemma trim_digits: "\<forall>c \<in> set s. is_digit c \<Longrightarrow> trim s = s"
proof -
  assume a: "\<forall>c \<in> set s. is_digit c"
  have "\<And>c. is_digit c \<Longrightarrow> \<not> is_whitespace c"
    unfolding is_digit_def is_whitespace_def
    by (auto simp: word_le_def word_less_def)
  with a have ns: "\<forall>c \<in> set s. \<not> is_whitespace c" by blast
  have keep: "dropWhile is_whitespace xs = xs" if "\<forall>c \<in> set xs. \<not> is_whitespace c" for xs
    using that by (cases xs) simp_all
  have "dropWhile is_whitespace s = s" using ns by (rule keep)
  moreover have "dropWhile is_whitespace (rev s) = rev s" using ns by (intro keep) simp
  ultimately show ?thesis by (simp add: trim_def)
qed

text \<open>
  C3, as the code has it. The owner awaits a request (and the foreign key of
  \<open>user_states\<close> holds, so the owner is a known user). A text of digits whose value is
  positive and below \<open>2 ^ 53\<close> is classified as stars, and the request stored under
  the new token holds exactly that integer, printed in decimal. The text \<open>0\<close> is
  answered with the corrective message and stores nothing.
\<close>

theorem positive_count_stored:
  assumes "reachable db"
    and "user_states db BOT_OWNER_ID = Some awaiting_request"
    and "dom (user_states db) \<subseteq> dom (users db)"
    and "isNumber (trim message_text)"
    and "0 < mathInt (trim message_text)"
    and "mathInt (trim message_text) < 2 ^ 53"
  shows "classify (trim message_text) = Stars \<and>
         requests (the (snd (on_text BASE_URL rnd (Some db) BOT_OWNER_ID message_text)))
             (generateRandomToken rnd 14) =
           Some \<lparr>user_id = BOT_OWNER_ID, request_type = Some (str ''stars''),
                 request_value = decimal (mathInt (trim message_text)),
                 generated_link = BASE_URL @ str ''/c/'' @ generateRandomToken rnd 14\<rparr> \<and>
         on_text BASE_URL rnd (Some db) BOT_OWNER_ID (str ''0'') =
           ([Reply msg_not_positive], Some db)"
proof -
  have known: "BOT_OWNER_ID \<in> dom (users db)" using assms(2,3) by auto
  have c: "classify (trim message_text) = Stars"
    using assms(4) by (simp add: classify_def)
  have acc: "isNumber (trim message_text) \<and> 0 < mathInt (trim message_text) \<or>
             isUrl (trim message_text)"
    using assms(4,5) by simp
  have stored: "requests (the (snd (on_text BASE_URL rnd (Some db) BOT_OWNER_ID message_text)))
             (generateRandomToken rnd 14) =
           Some \<lparr>user_id = BOT_OWNER_ID, request_type = Some (str ''stars''),
                 request_value = decimal (mathInt (trim message_text)),
                 generated_link = BASE_URL @ str ''/c/'' @ generateRandomToken rnd 14\<rparr>"
    unfolding on_text_accepts [OF assms(1,2) known acc]
    using assms(4,6) by (simp add: String_parseInt10_small)
  have t0: "trim (str ''0'') = str ''0''"
    by (rule trim_digits) (simp add: str_def is_digit_def)
  have n0: "isNumber (str ''0'')" by (simp add: isNumber_iff str_def is_digit_def)
  have m0: "mathInt (str ''0'') = 0" by (simp add: mathInt_def str_def digit_value_def)
  have "classify (trim (str ''0'')) = Stars \<and> mathInt (trim (str ''0'')) = 0"
    using n0 m0 by (simp add: t0 classify_def)
  then have zero: "on_text BASE_URL rnd (Some db) BOT_OWNER_ID (str ''0'') =
           ([Reply msg_not_positive], Some db)"
    using on_text_rejects [OF assms(1,2), of "str ''0''" BASE_URL rnd] by simp
  show ?thesis using c stored zero by simp
qed

theorem positive_count_stored_witness:
  "reachable awaiting_db \<and>
   user_states awaiting_db BOT_OWNER_ID = Some awaiting_request \<and>
   dom (user_states awaiting_db) \<subseteq> dom (users awaiting_db) \<and>
   isNumber (trim (str ''007'')) \<and> mathInt (trim (str ''007'')) = 7 \<and>
   requests (the (snd (on_text (str ''https://borkstudio'') zero_source (Some awaiting_db)
       BOT_OWNER_ID (str ''007'')))) (generateRandomToken zero_source 14) =
     Some \<lparr>user_id = BOT_OWNER_ID, request_type = Some (str ''stars''),
           request_value = str ''7'',
           generated_link = str ''https://borkstudio'' @ str ''/c/'' @
             generateRandomToken zero_source 14\<rparr>"
proof -
  have t: "trim (str ''007'') = str ''007''"
    by (rule trim_digits) (simp add: str_def is_digit_def)
  have n: "isNumber (str ''007'')" by (simp add: isNumber_iff str_def is_digit_def)
  have m: "mathInt (str ''007'') = 7" by (simp add: mathInt_def str_def digit_value_def)
  have d: "decimal 7 = str ''7''" by (simp add: decimal.simps str_def)
  have db: "reachable awaiting_db"
    "user_states awaiting_db BOT_OWNER_ID = Some awaiting_request"
    "dom (user_states awaiting_db) \<subseteq> dom (users awaiting_db)"
    by (simp_all add: awaiting_db_def)
  show ?thesis
    using positive_count_stored [of awaiting_db "str ''007''" "str ''https://borkstudio''"
        zero_source] db
    by (simp add: t n m d)
qed

text \<open>
  C3 does not hold without the bound: \<open>parseInt\<close> returns the double nearest to the
  digits. For the text \<open>9007199254740993\<close> (\<open>2 ^ 53 + 1\<close>) the stored value is
  \<open>9007199254740992\<close>.
\<close>

theorem unsafe_count_not_exact:
  "isNumber (str ''9007199254740993'') \<and>
   mathInt (str ''9007199254740993'') = 9007199254740993 \<and>
   map_option request_value
     (requests (the (snd (on_text (str ''https://borkstudio'') zero_source (Some awaiting_db)
        BOT_OWNER_ID (str ''9007199254740993'')))) (generateRandomToken zero_source 14)) =
     Some (str ''9007199254740992'') \<and>
   str ''9007199254740992'' \<noteq> decimal 9007199254740993"
proof -
  have t: "trim (str ''9007199254740993'') = str ''9007199254740993''"
    by (rule trim_digits) (simp add: str_def is_digit_def)
  have n: "isNumber (str ''9007199254740993'')"
    by (simp add: isNumber_iff str_def is_digit_def)
  have m: "mathInt (str ''9007199254740993'') = 9007199254740993"
    by (simp add: mathInt_def str_def digit_value_def)
  have db: "reachable awaiting_db"
    "user_states awaiting_db BOT_OWNER_ID = Some awaiting_request"
    "BOT_OWNER_ID \<in> dom (users awaiting_db)"
    by (simp_all add: awaiting_db_def)
  have acc: "isNumber (trim (str ''9007199254740993'')) \<and>
             0 < mathInt (trim (str ''9007199254740993'')) \<or>
             isUrl (trim (str ''9007199254740993''))"
    by (simp add: t n m)
  have stored: "map_option request_value
     (requests (the (snd (on_text (str ''https://borkstudio'') zero_source (Some awaiting_db)
        BOT_OWNER_ID (str ''9007199254740993'')))) (generateRandomToken zero_source 14)) =
     Some (str ''9007199254740992'')"
    unfolding on_text_accepts [OF db acc]
    by (simp add: t n parseInt10_unsafe number_to_string_unsafe)
  have "decimal 9007199254740993 = str ''9007199254740993''"
    by (simp add: decimal.simps str_def)
  then have "str ''9007199254740992'' \<noteq> decimal 9007199254740993"
    by (simp add: str_def)
  with n m stored show ?thesis by simp
qed

subsection \<open>The whole flow, up to the page of the callback\<close>

lemma token_loop_chars: "set (token_loop rnd len i out) \<subseteq> set out \<union> set alphabet"
proof (induction rnd len i out rule: token_loop.induct)
  case (1 rnd len i out)
  have c: "set (charAt alphabet k) \<subseteq> set alphabet" for k
    by (auto simp: charAt_def)
  show ?case
  proof (cases "i < len")
    case True
    with "1.IH" c [of "random_index (rnd i) (length alphabet)"] show ?thesis
      by (subst token_loop.simps) auto
  next
    case False
    then show ?thesis by (subst token_loop.simps) simp
  qed
qed

lemma token_without_nul: "0 \<notin> set (generateRandomToken rnd len)"
proof -
  have "0 \<notin> set alphabet" by (simp add: alphabet_def str_def)
  then show ?thesis
    using token_loop_chars [of rnd len 0 "[]"] by (auto simp: generateRandomToken_def)
qed

lemma flow_page:
  assumes "reachable db" and "id owner = BOT_OWNER_ID"
    and "isNumber (trim message_text) \<and> 0 < mathInt (trim message_text) \<or>
         isUrl (trim message_text)"
    and "on_start links (Some db) owner = (said1, pool1)"
    and "on_get_link pool1 BOT_OWNER_ID = (said2, pool2)"
    and "on_text BASE_URL rnd pool2 BOT_OWNER_ID message_text = (said3, pool3)"
  shows "said3 = [Reply (msg_done @ BASE_URL @ str ''/c/'' @ generateRandomToken rnd 14)] \<and>
         copy_handler BASE_URL pool3 (generateRandomToken rnd 14) =
           \<lparr>status = 200,
            body = buildCopyHtml (BASE_URL @ str ''/c/'' @ generateRandomToken rnd 14)
              (Some \<lparr>user_id = BOT_OWNER_ID,
                     request_type =
                       Some (if isNumber (trim message_text) then str ''stars'' else str ''nft''),
                     request_value =
                       (if isNumber (trim message_text)
                        then number_to_string (parseInt10 (trim message_text))
                        else trim message_text),
                     generated_link = BASE_URL @ str ''/c/'' @ generateRandomToken rnd 14\<rparr>)
              False\<rparr>"
proof -
  define db1 where "db1 = db\<lparr>users := (users db)(id owner \<mapsto>
      \<lparr>username = or_null (tg_username owner), first_name = or_null (tg_first_name owner),
       last_name = or_null (tg_last_name owner)\<rparr>)\<rparr>"
  define db2 where "db2 = db1\<lparr>user_states := (user_states db1)(BOT_OWNER_ID \<mapsto> awaiting_request)\<rparr>"
  define token where "token = generateRandomToken rnd 14"
  define row where "row = \<lparr>user_id = BOT_OWNER_ID,
      request_type = Some (if isNumber (trim message_text) then str ''stars'' else str ''nft''),
      request_value = (if isNumber (trim message_text)
                       then number_to_string (parseInt10 (trim message_text))
                       else trim message_text),
      generated_link = BASE_URL @ str ''/c/'' @ token\<rparr>"
  have p1: "pool1 = Some db1"
    using assms(1,2,4) by (simp add: on_start_def upsertUser_def db1_def split: if_splits)
  have r1: "reachable db1" "BOT_OWNER_ID \<in> dom (users db1)"
    using assms(1,2) by (simp_all add: db1_def)
  have p2: "pool2 = Some db2"
    using assms(5) r1 by (simp add: p1 on_get_link_def setUserState_def db2_def)
  have r2: "reachable db2" "user_states db2 BOT_OWNER_ID = Some awaiting_request"
    "BOT_OWNER_ID \<in> dom (users db2)"
    using r1 by (simp_all add: db2_def)
  have t3: "on_text BASE_URL rnd (Some db2) BOT_OWNER_ID message_text =
      ([Reply (msg_done @ BASE_URL @ str ''/c/'' @ token)],
       Some (db2\<lparr>requests := (requests db2)(token \<mapsto> row),
                  user_states := (user_states db2)(BOT_OWNER_ID := None)\<rparr>))"
    unfolding token_def row_def by (rule on_text_accepts [OF r2 assms(3)])
  with assms(6) have p3: "pool3 = Some (db2\<lparr>requests := (requests db2)(token \<mapsto> row),
                  user_states := (user_states db2)(BOT_OWNER_ID := None)\<rparr>)"
    and s3: "said3 = [Reply (msg_done @ BASE_URL @ str ''/c/'' @ token)]"
    by (simp_all add: p2)
  have nul: "0 \<notin> set token" unfolding token_def by (rule token_without_nul)
  have "copy_handler BASE_URL pool3 token =
      \<lparr>status = 200, body = buildCopyHtml (BASE_URL @ str ''/c/'' @ token) (Some row) False\<rparr>"
    using r2(1) nul by (simp add: p3 copy_handler_def)
  with s3 show ?thesis by (simp add: token_def row_def)
qed

text \<open>
  C1, as the code has it. The owner starts the bot, asks for a link and sends a valid
  text: digits of a positive value below \<open>2 ^ 53\<close>, or a URL. The callback of the
  route, given the token that the flow generated, then answers status 200 with the found
  variant of the page for the stored request, and the page contains the display form of
  the value: for stars the decimal digits of the value followed by the unit label, for
  nft the trimmed text itself. Whether the route is registered is left aside here.
\<close>

theorem link_round_trip:
  assumes "reachable db" and "id owner = BOT_OWNER_ID"
    and "isNumber (trim message_text) \<and> 0 < mathInt (trim message_text) \<and>
           mathInt (trim message_text) < 2 ^ 53 \<or>
         isUrl (trim message_text)"
    and "on_start links (Some db) owner = (said1, pool1)"
    and "on_get_link pool1 BOT_OWNER_ID = (said2, pool2)"
    and "on_text BASE_URL rnd pool2 BOT_OWNER_ID message_text = (said3, pool3)"
  shows "status (copy_handler BASE_URL pool3 (generateRandomToken rnd 14)) = 200 \<and>
         sublist
           (if isNumber (trim message_text)
            then decimal (mathInt (trim message_text)) @ unit_label
            else trim message_text)
           (body (copy_handler BASE_URL pool3 (generateRandomToken rnd 14))) \<and>
         said3 = [Reply (msg_done @ BASE_URL @ str ''/c/'' @ generateRandomToken rnd 14)]"
proof -
  define row where "row = \<lparr>user_id = BOT_OWNER_ID,
      request_type = Some (if isNumber (trim message_text) then str ''stars'' else str ''nft''),
      request_value = (if isNumber (trim message_text)
                       then number_to_string (parseInt10 (trim message_text))
                       else trim message_text),
      generated_link = BASE_URL @ str ''/c/'' @ generateRandomToken rnd 14\<rparr>"
  have valid: "isNumber (trim message_text) \<and> 0 < mathInt (trim message_text) \<or>
               isUrl (trim message_text)"
    using assms(3) by blast
  have exact: "isNumber (trim message_text) \<Longrightarrow>
      number_to_string (parseInt10 (trim message_text)) = decimal (mathInt (trim message_text))"
    using assms(3) not_number_and_url [of "trim message_text"]
    by (auto simp: String_parseInt10_small)
  from flow_page [OF assms(1,2) valid assms(4,5,6)]
  have s3: "said3 = [Reply (msg_done @ BASE_URL @ str ''/c/'' @ generateRandomToken rnd 14)]"
    and page: "copy_handler BASE_URL pool3 (generateRandomToken rnd 14) =
      \<lparr>status = 200,
       body = buildCopyHtml (BASE_URL @ str ''/c/'' @ generateRandomToken rnd 14) (Some row) False\<rparr>"
    by (simp_all add: row_def)
  have kinds: "str ''nft'' \<noteq> str ''stars''" by (simp add: str_def)
  have "displayValue (Some row) =
      (if isNumber (trim message_text)
       then decimal (mathInt (trim message_text)) @ unit_label
       else trim message_text)"
    using kinds exact by (simp add: displayValue_Some row_def)
  then have "sublist
      (if isNumber (trim message_text)
       then decimal (mathInt (trim message_text)) @ unit_label
       else trim message_text)
      (buildCopyHtml (BASE_URL @ str ''/c/'' @ generateRandomToken rnd 14) (Some row) False)"
    using page_contains_displayValue
      [of "Some row" "BASE_URL @ str ''/c/'' @ generateRandomToken rnd 14" False]
    by simp
  with page s3 show ?thesis by simp
qed

definition owner_user :: telegram_user where
  "owner_user = \<lparr>id = BOT_OWNER_ID, tg_username = None, tg_first_name = None,
     tg_last_name = None\<rparr>"

lemma nft_link_is_url: "isUrl (trim (str '' https://t.me/nft/Gift-1 ''))"
proof -
  have t: "trim (str '' https://t.me/nft/Gift-1 '') = str ''https://t.me/nft/Gift-1''"
    by (simp add: trim_def str_def is_whitespace_def)
  show ?thesis
    unfolding t
    by (simp add: isUrl_def url_pattern_def str_def ci_def canonicalize_def Opt_def Plus_def
        is_host_char_def is_path_char_def is_word_def is_digit_def)
qed

theorem link_round_trip_witness:
  "reachable empty_db \<and> id owner_user = BOT_OWNER_ID \<and>
   isUrl (trim (str '' https://t.me/nft/Gift-1 '')) \<and>
   \<not> isNumber (trim (str '' https://t.me/nft/Gift-1 '')) \<and>
   status (copy_handler (str ''https://borkstudio'')
     (snd (on_text (str ''https://borkstudio'') zero_source
        (snd (on_get_link (snd (on_start [] (Some empty_db) owner_user)) BOT_OWNER_ID))
        BOT_OWNER_ID (str '' https://t.me/nft/Gift-1 '')))
     (generateRandomToken zero_source 14)) = 200 \<and>
   sublist (trim (str '' https://t.me/nft/Gift-1 ''))
     (body (copy_handler (str ''https://borkstudio'')
     (snd (on_text (str ''https://borkstudio'') zero_source
        (snd (on_get_link (snd (on_start [] (Some empty_db) owner_user)) BOT_OWNER_ID))
        BOT_OWNER_ID (str '' https://t.me/nft/Gift-1 '')))
     (generateRandomToken zero_source 14)))"
proof -
  have u: "isUrl (trim (str '' https://t.me/nft/Gift-1 ''))" by (rule nft_link_is_url)
  then have n: "\<not> isNumber (trim (str '' https://t.me/nft/Gift-1 ''))"
    using not_number_and_url by blast
  have d: "reachable empty_db" "id owner_user = BOT_OWNER_ID"
    by (simp_all add: empty_db_def owner_user_def)
  show ?thesis
    using link_round_trip [OF d, of "str '' https://t.me/nft/Gift-1 ''" "[]"
        "fst (on_start [] (Some empty_db) owner_user)"
        "snd (on_start [] (Some empty_db) owner_user)"
        "fst (on_get_link (snd (on_start [] (Some empty_db) owner_user)) BOT_OWNER_ID)"
        "snd (on_get_link (snd (on_start [] (Some empty_db) owner_user)) BOT_OWNER_ID)"
        "str ''https://borkstudio''" zero_source
        "fst (on_text (str ''https://borkstudio'') zero_source
          (snd (on_get_link (snd (on_start [] (Some empty_db) owner_user)) BOT_OWNER_ID))
          BOT_OWNER_ID (str '' https://t.me/nft/Gift-1 ''))"
        "snd (on_text (str ''https://borkstudio'') zero_source
          (snd (on_get_link (snd (on_start [] (Some empty_db) owner_user)) BOT_OWNER_ID))
          BOT_OWNER_ID (str '' https://t.me/nft/Gift-1 ''))"]
      u n d
    by simp
qed

subsection \<open>The only place of the unit label on a page\<close>

lemma str_units_small: "c \<in> set (str s) \<Longrightarrow> unat c < 256"
proof -
  assume "c \<in> set (str s)"
  then obtain x where c: "c = of_char x" by (auto simp: str_def)
  have "unat (of_nat (of_char x) :: jschar) = of_char x mod 2 ^ 16"
    by (simp add: unat_of_nat)
  moreover have "(of_char x :: nat) < 256" by (rule nat_of_char_less_256)
  ultimately show ?thesis by (simp add: c of_nat_of_char)
qed

lemma yo_not_in_str: "(0x451 :: jschar) \<notin> set (str s)"
proof
  assume "(0x451 :: jschar) \<in> set (str s)"
  then have "unat (0x451 :: jschar) < 256" by (rule str_units_small)
  then show False by simp
qed

lemma single_occurrence:
  assumes "c \<notin> set P" and "c \<notin> set S"
    and "sublist (p @ c # s) (P @ c # S)"
  shows "suffix p P \<and> prefix s S"
proof -
  from assms(3) obtain ps ss where "P @ c # S = ps @ (p @ c # s) @ ss"
    by (auto simp: sublist_def)
  then have "P @ c # S = (ps @ p) @ c # (s @ ss)" by simp
  then have "P = ps @ p \<and> S = s @ ss"
    using append_Cons_eq_iff [OF assms(1,2), of "ps @ p" "s @ ss"] by blast
  then show ?thesis by (simp add: suffix_def prefix_def)
qed

lemma yo_not_in_template:
  "(0x451 :: jschar) \<notin> set page_head" "(0x451 :: jschar) \<notin> set title_copy"
  "(0x451 :: jschar) \<notin> set page_style" "(0x451 :: jschar) \<notin> set page_desc_open"
  "(0x451 :: jschar) \<notin> set description_copy" "(0x451 :: jschar) \<notin> set page_desc_close"
  "(0x451 :: jschar) \<notin> set page_controls" "(0x451 :: jschar) \<notin> set page_script"
  by (simp_all add: page_head_def title_copy_def page_style_def page_desc_open_def
      description_copy_def page_desc_close_def page_controls_def page_script_def yo_not_in_str)

lemma stars_page_shows_stored_digits:
  assumes "request_type row = Some (str ''stars'')"
    and "0x451 \<notin> set fullUrl" and "0x451 \<notin> set (JSON_stringify fullUrl)"
    and "0x451 \<notin> set (request_value row)"
    and "length d = length (request_value row)"
    and "sublist (d @ unit_label) (buildCopyHtml fullUrl (Some row) False)"
  shows "d = request_value row"
proof -
  define A where \<open>A = page_head @ title_copy @ page_style @ title_copy @ page_desc_open @
      description_copy @ fullUrl @ page_desc_close @ str ''<div class="value">''\<close>
  define B where \<open>B = [0x437, 0x434] @ str ''</div>'' @ page_controls @
      JSON_stringify fullUrl @ page_script\<close>
  have sp: "str '' '' = [0x20]" by (simp add: str_def)
  have ne: "request_value row @ unit_label \<noteq> []" by (simp add: unit_label_def sp)
  have page: "buildCopyHtml fullUrl (Some row) False =
      (A @ request_value row @ [0x20, 0x437, 0x432]) @ 0x451 # B"
    using assms(1) ne
    by (simp add: buildCopyHtml_def displayValue_def value_block_def unit_label_def sp
        A_def B_def)
  have pat: "d @ unit_label = (d @ [0x20, 0x437, 0x432]) @ 0x451 # [0x437, 0x434]"
    by (simp add: unit_label_def sp)
  have inP: "0x451 \<notin> set (A @ request_value row @ [0x20, 0x437, 0x432])"
    using assms(2,4) by (simp add: A_def yo_not_in_template yo_not_in_str)
  have inS: "0x451 \<notin> set B"
    using assms(3) by (simp add: B_def yo_not_in_template yo_not_in_str)
  from assms(6) have "sublist ((d @ [0x20, 0x437, 0x432]) @ 0x451 # [0x437, 0x434])
      ((A @ request_value row @ [0x20, 0x437, 0x432]) @ 0x451 # B)"
    by (simp only: page pat)
  from single_occurrence [OF inP inS this]
  have "suffix (d @ [0x20, 0x437, 0x432]) (A @ request_value row @ [0x20, 0x437, 0x432])"
    by simp
  then have "suffix d (A @ request_value row)"
    by (metis append.assoc same_suffix_suffix)
  then obtain zs where "A @ request_value row = zs @ d" by (auto simp: suffix_def)
  with assms(5) show ?thesis by simp
qed

lemma zero_token: "generateRandomToken zero_source 14 = str ''AAAAAAAAAAAAAA''"
proof -
  have i: "random_index (zero_source k) (length alphabet) = 0" for k
    by (simp add: random_index_def zero_source_def round_to_53_below)
  have c: "charAt alphabet 0 = str ''A''"
    by (simp add: charAt_def alphabet_def str_def)
  show ?thesis
    by (simp add: generateRandomToken_def token_loop.simps i c str_def)
qed

text \<open>
  C1 does not hold as it is stated. For the text \<open>9007199254740993\<close> the page that the
  callback builds at the end of the flow shows the stored \<open>9007199254740992\<close> with the
  unit label and contains the display form of the owner's value nowhere. And a client
  gets no page at all, since loading the module never registers the route.
\<close>

theorem unsafe_count_not_displayed:
  "isNumber (trim (str ''9007199254740993'')) \<and>
   mathInt (trim (str ''9007199254740993'')) = 9007199254740993 \<and>
   copy_route True (str ''https://borkstudio'')
     (snd (on_text (str ''https://borkstudio'') zero_source
        (snd (on_get_link (snd (on_start [] (Some empty_db) owner_user)) BOT_OWNER_ID))
        BOT_OWNER_ID (str ''9007199254740993'')))
     (generateRandomToken zero_source 14) = None \<and>
   status (copy_handler (str ''https://borkstudio'')
     (snd (on_text (str ''https://borkstudio'') zero_source
        (snd (on_get_link (snd (on_start [] (Some empty_db) owner_user)) BOT_OWNER_ID))
        BOT_OWNER_ID (str ''9007199254740993'')))
     (generateRandomToken zero_source 14)) = 200 \<and>
   \<not> sublist (decimal 9007199254740993 @ unit_label)
     (body (copy_handler (str ''https://borkstudio'')
       (snd (on_text (str ''https://borkstudio'') zero_source
          (snd (on_get_link (snd (on_start [] (Some empty_db) owner_user)) BOT_OWNER_ID))
          BOT_OWNER_ID (str ''9007199254740993'')))
       (generateRandomToken zero_source 14)))"
proof -
  define url where "url = str ''https://borkstudio'' @ str ''/c/'' @ str ''AAAAAAAAAAAAAA''"
  define row where "row = \<lparr>user_id = BOT_OWNER_ID, request_type = Some (str ''stars''),
      request_value = str ''9007199254740992'', generated_link = url\<rparr>"
  have t: "trim (str ''9007199254740993'') = str ''9007199254740993''"
    by (rule trim_digits) (simp add: str_def is_digit_def)
  have n: "isNumber (str ''9007199254740993'')"
    by (simp add: isNumber_iff str_def is_digit_def)
  have m: "mathInt (str ''9007199254740993'') = 9007199254740993"
    by (simp add: mathInt_def str_def digit_value_def)
  have d: "reachable empty_db" "id owner_user = BOT_OWNER_ID"
    by (simp_all add: empty_db_def owner_user_def)
  have valid: "isNumber (trim (str ''9007199254740993'')) \<and>
      0 < mathInt (trim (str ''9007199254740993'')) \<or> isUrl (trim (str ''9007199254740993''))"
    by (simp add: t n m)
  have page: "copy_handler (str ''https://borkstudio'')
     (snd (on_text (str ''https://borkstudio'') zero_source
        (snd (on_get_link (snd (on_start [] (Some empty_db) owner_user)) BOT_OWNER_ID))
        BOT_OWNER_ID (str ''9007199254740993'')))
     (generateRandomToken zero_source 14) =
     \<lparr>status = 200, body = buildCopyHtml url (Some row) False\<rparr>"
    using flow_page [OF d valid, of "[]"
        "fst (on_start [] (Some empty_db) owner_user)"
        "snd (on_start [] (Some empty_db) owner_user)"
        "fst (on_get_link (snd (on_start [] (Some empty_db) owner_user)) BOT_OWNER_ID)"
        "snd (on_get_link (snd (on_start [] (Some empty_db) owner_user)) BOT_OWNER_ID)"
        "str ''https://borkstudio''" zero_source
        "fst (on_text (str ''https://borkstudio'') zero_source
          (snd (on_get_link (snd (on_start [] (Some empty_db) owner_user)) BOT_OWNER_ID))
          BOT_OWNER_ID (str ''9007199254740993''))"
        "snd (on_text (str ''https://borkstudio'') zero_source
          (snd (on_get_link (snd (on_start [] (Some empty_db) owner_user)) BOT_OWNER_ID))
          BOT_OWNER_ID (str ''9007199254740993''))"]
    by (simp add: t n zero_token parseInt10_unsafe number_to_string_unsafe url_def row_def)
  have dec: "decimal 9007199254740993 = str ''9007199254740993''"
    by (simp add: decimal.simps str_def)
  have u1: "0x451 \<notin> set url" by (simp add: url_def yo_not_in_str)
  have u2: "0x451 \<notin> set (JSON_stringify url)"
    by (simp add: url_def str_def JSON_stringify_def json_escape_def is_high_surrogate_def
        is_low_surrogate_def)
  have absent: "\<not> sublist (str ''9007199254740993'' @ unit_label) (buildCopyHtml url (Some row) False)"
  proof
    assume a: "sublist (str ''9007199254740993'' @ unit_label) (buildCopyHtml url (Some row) False)"
    have "str ''9007199254740993'' = request_value row"
      by (rule stars_page_shows_stored_digits [OF _ u1 u2 _ _ a])
        (simp_all add: row_def yo_not_in_str, simp add: str_def)
    then show False by (simp add: row_def str_def)
  qed
  show ?thesis
    using absent by (simp add: t n m page dec copy_route_unanswered)
qed

end
